theory Spec2Isabelle
  imports Complex_Main "HOL-Library.AList"
begin

section \<open>JavaScript strings\<close>

text \<open>
  A JavaScript string is modelled as a \<^typ>\<open>string\<close>: an ASCII character is itself, and a
  UTF-16 code unit outside ASCII stands as the two or three bytes that \<open>encode_unit\<close> below
  gives it. The operations of the program that look inside a string (\<^verbatim>\<open>split(',')\<close>,
  \<^verbatim>\<open>split('.')\<close>, the truthiness test of \<^verbatim>\<open>||\<close>, \<^verbatim>\<open>JSON.parse\<close>) only compare
  characters with ASCII characters and test for emptiness.
\<close>

text \<open>
  \<^verbatim>\<open>s.split(c)\<close> for a one-character separator: the pieces between the occurrences of
  the separator, in order. The result is never empty: \<^verbatim>\<open>"".split(",")\<close> is \<^verbatim>\<open>[""]\<close>.
\<close>

fun split_js :: "char \<Rightarrow> string \<Rightarrow> string list" where
  "split_js c [] = [[]]"
| "split_js c (x # xs) =
     (if x = c then [] # split_js c xs
      else (case split_js c xs of
              [] \<Rightarrow> [[x]]
            | w # ws \<Rightarrow> (x # w) # ws))"

text \<open>\<^verbatim>\<open>xs[i]\<close>: \<^verbatim>\<open>undefined\<close> (here \<open>None\<close>) when the index is out of range.\<close>

definition index_js :: "'a list \<Rightarrow> nat \<Rightarrow> 'a option" where
  "index_js xs i = (if i < length xs then Some (xs ! i) else None)"

text \<open>
  \<^verbatim>\<open>a || b\<close> where \<^verbatim>\<open>a\<close> is a string or \<^verbatim>\<open>undefined\<close>: \<^verbatim>\<open>undefined\<close> and the empty
  string are falsy.
\<close>

definition or_js :: "string option \<Rightarrow> string \<Rightarrow> string" where
  "or_js a b = (case a of None \<Rightarrow> b | Some s \<Rightarrow> (if s = [] then b else s))"

section \<open>JSON values and \<^verbatim>\<open>JSON.parse\<close>\<close>

text \<open>
  The values \<^verbatim>\<open>JSON.parse\<close> produces. A number is kept as the text of its
  literal (no floating-point arithmetic is done on it by the program), an object as the list
  of its properties in creation order, with distinct keys when it comes from the parser.
\<close>

datatype json =
    JNull
  | JBool bool
  | JNumber string
  | JString string
  | JArray "json list"
  | JObject "(string \<times> json) list"

text \<open>
  \<^verbatim>\<open>JSON.parse\<close> is a function of the language, not of the program; it is modelled by a
  recursive-descent parser of the JSON grammar (ECMA-404): white space is space, tab, line
  feed and carriage return.
\<close>

definition is_ws :: "char \<Rightarrow> bool" where
  "is_ws c = (c = CHR '' '' \<or> c = CHR 0x09 \<or> c = CHR 0x0A \<or> c = CHR 0x0D)"

fun skip_ws :: "string \<Rightarrow> string" where
  "skip_ws [] = []"
| "skip_ws (c # s) = (if is_ws c then skip_ws s else c # s)"

definition is_digit :: "char \<Rightarrow> bool" where
  "is_digit c = (c \<in> set ''0123456789'')"

definition hex_val :: "char \<Rightarrow> nat option" where
  "hex_val c =
     (if is_digit c then Some (of_char c - 48)
      else if c \<in> set ''abcdef'' then Some (of_char c - 87)
      else if c \<in> set ''ABCDEF'' then Some (of_char c - 55)
      else None)"

definition hex4 :: "char \<Rightarrow> char \<Rightarrow> char \<Rightarrow> char \<Rightarrow> nat option" where
  "hex4 a b c d =
     (case (hex_val a, hex_val b, hex_val c, hex_val d) of
        (Some x, Some y, Some z, Some w) \<Rightarrow> Some (((x * 16 + y) * 16 + z) * 16 + w)
      | _ \<Rightarrow> None)"

text \<open>
  The code unit that a \<^verbatim>\<open>\uXXXX\<close> escape denotes, as the characters of the model: one
  byte below \<open>0x80\<close>, two below \<open>0x800\<close>, three otherwise.
\<close>

definition encode_unit :: "nat \<Rightarrow> string" where
  "encode_unit n =
     (if n < 0x80 then [char_of n]
      else if n < 0x800 then [char_of (0xC0 + n div 64), char_of (0x80 + n mod 64)]
      else [char_of (0xE0 + n div 4096), char_of (0x80 + (n div 64) mod 64),
            char_of (0x80 + n mod 64)])"

definition escape :: "char \<Rightarrow> char option" where
  "escape e =
     (if e = CHR 0x22 then Some (CHR 0x22)
      else if e = CHR 0x5C then Some (CHR 0x5C)
      else if e = CHR ''/'' then Some (CHR ''/'')
      else if e = CHR ''b'' then Some (CHR 0x08)
      else if e = CHR ''f'' then Some (CHR 0x0C)
      else if e = CHR ''n'' then Some (CHR 0x0A)
      else if e = CHR ''r'' then Some (CHR 0x0D)
      else if e = CHR ''t'' then Some (CHR 0x09)
      else None)"

text \<open>
  The characters of a string literal after its opening quote, up to the closing quote: the
  decoded string and the rest of the input. A control character and an unknown escape are
  syntax errors.
\<close>

fun parse_chars :: "string \<Rightarrow> (string \<times> string) option" where
  "parse_chars [] = None"
| "parse_chars (c # s) =
     (if c = CHR 0x22 then Some ([], s)
      else if c = CHR 0x5C then
        (case s of
           [] \<Rightarrow> None
         | e # s1 \<Rightarrow>
             if e = CHR ''u'' then
               (case s1 of
                  a # b # c # d # s2 \<Rightarrow>
                    (case hex4 a b c d of
                       None \<Rightarrow> None
                     | Some n \<Rightarrow>
                         (case parse_chars s2 of
                            None \<Rightarrow> None
                          | Some (w, r) \<Rightarrow> Some (encode_unit n @ w, r)))
                | _ \<Rightarrow> None)
             else
               (case escape e of
                  None \<Rightarrow> None
                | Some x \<Rightarrow>
                    (case parse_chars s1 of
                       None \<Rightarrow> None
                     | Some (w, r) \<Rightarrow> Some (x # w, r))))
      else if (of_char c :: nat) < 0x20 then None
      else (case parse_chars s of
              None \<Rightarrow> None
            | Some (w, r) \<Rightarrow> Some (c # w, r)))"

text \<open>
  A number: an optional minus sign, an integer part with no leading zero, an optional
  fraction and an optional exponent. The result is the text of the literal and the rest.
\<close>

definition parse_digits :: "string \<Rightarrow> (string \<times> string) option" where
  "parse_digits s =
     (if takeWhile is_digit s = [] then None
      else Some (takeWhile is_digit s, dropWhile is_digit s))"

definition parse_int :: "string \<Rightarrow> (string \<times> string) option" where
  "parse_int s =
     (case s of
        [] \<Rightarrow> None
      | c # r \<Rightarrow>
          if c = CHR ''0'' then Some (''0'', r)
          else if is_digit c then Some (c # takeWhile is_digit r, dropWhile is_digit r)
          else None)"

definition parse_frac :: "string \<Rightarrow> (string \<times> string) option" where
  "parse_frac s =
     (case s of
        [] \<Rightarrow> Some ([], [])
      | c # r \<Rightarrow>
          if c = CHR ''.'' then
            (case parse_digits r of None \<Rightarrow> None | Some (ds, r1) \<Rightarrow> Some (c # ds, r1))
          else Some ([], s))"

definition parse_exp :: "string \<Rightarrow> (string \<times> string) option" where
  "parse_exp s =
     (case s of
        [] \<Rightarrow> Some ([], [])
      | c # r \<Rightarrow>
          if c = CHR ''e'' \<or> c = CHR ''E'' then
            (case r of
               [] \<Rightarrow> None
             | g # r1 \<Rightarrow>
                 if g = CHR ''+'' \<or> g = CHR ''-'' then
                   (case parse_digits r1 of
                      None \<Rightarrow> None
                    | Some (ds, r2) \<Rightarrow> Some (c # g # ds, r2))
                 else
                   (case parse_digits r of
                      None \<Rightarrow> None
                    | Some (ds, r2) \<Rightarrow> Some (c # ds, r2)))
          else Some ([], s))"

definition parse_unsigned :: "string \<Rightarrow> (string \<times> string) option" where
  "parse_unsigned s =
     (case parse_int s of
        None \<Rightarrow> None
      | Some (i, r1) \<Rightarrow>
          (case parse_frac r1 of
             None \<Rightarrow> None
           | Some (f, r2) \<Rightarrow>
               (case parse_exp r2 of
                  None \<Rightarrow> None
                | Some (e, r3) \<Rightarrow> Some (i @ f @ e, r3))))"

definition parse_number :: "string \<Rightarrow> (string \<times> string) option" where
  "parse_number s =
     (case s of
        [] \<Rightarrow> None
      | c # r \<Rightarrow>
          if c = CHR ''-'' then
            (case parse_unsigned r of None \<Rightarrow> None | Some (n, r1) \<Rightarrow> Some (c # n, r1))
          else parse_unsigned s)"

definition parse_literal :: "string \<Rightarrow> (json \<times> string) option" where
  "parse_literal s =
     (if take 4 s = ''true'' then Some (JBool True, drop 4 s)
      else if take 5 s = ''false'' then Some (JBool False, drop 5 s)
      else if take 4 s = ''null'' then Some (JNull, drop 4 s)
      else (case parse_number s of None \<Rightarrow> None | Some (n, r) \<Rightarrow> Some (JNumber n, r)))"

text \<open>Skipping white space and reading a string literal do not lengthen the input.\<close>

lemma length_skip_ws: "length (skip_ws s) \<le> length s"
  by (induction s) auto

lemma parse_chars_length: "parse_chars s = Some (w, r) \<Longrightarrow> length r < length s"
  by (induction s arbitrary: w r rule: parse_chars.induct)
     (fastforce split: if_splits list.splits option.splits)+

lemma skip_ws_Cons_length:
  "skip_ws r = d # r1 \<Longrightarrow> length r1 < length r \<and> length (skip_ws r1) < length r"
proof (induction r)
  case Nil
  then show ?case by simp
next
  case (Cons a r)
  show ?case
  proof (cases "is_ws a")
    case True
    with Cons show ?thesis by auto
  next
    case False
    with Cons.prems have "r1 = r" by simp
    with length_skip_ws [of r] show ?thesis by simp
  qed
qed

text \<open>
  A value, the elements of an array after its first bracket, and the members of an object
  after its first brace. \<open>parse_elements\<close> and \<open>parse_members\<close> start at an element and at
  a key, with the elements and members read so far; a member whose key has occurred
  replaces the value of the earlier one, as in JavaScript. The two tests on lengths are
  there for the termination proof; \<open>parse_value_consumes\<close> below shows that they never fail.
\<close>

function parse_value :: "string \<Rightarrow> (json \<times> string) option"
  and parse_elements :: "json list \<Rightarrow> string \<Rightarrow> (json \<times> string) option"
  and parse_members :: "(string \<times> json) list \<Rightarrow> string \<Rightarrow> (json \<times> string) option"
where
  "parse_value [] = None"
| "parse_value (c # r) =
     (if c = CHR ''{'' then
        (case skip_ws r of
           [] \<Rightarrow> None
         | d # r1 \<Rightarrow> if d = CHR ''}'' then Some (JObject [], r1) else parse_members [] (d # r1))
      else if c = CHR ''['' then
        (case skip_ws r of
           [] \<Rightarrow> None
         | d # r1 \<Rightarrow> if d = CHR '']'' then Some (JArray [], r1) else parse_elements [] (d # r1))
      else if c = CHR 0x22 then
        (case parse_chars r of None \<Rightarrow> None | Some (w, r1) \<Rightarrow> Some (JString w, r1))
      else parse_literal (c # r))"
| "parse_elements acc s =
     (case parse_value s of
        None \<Rightarrow> None
      | Some (v, r) \<Rightarrow>
          if length r < length s then
            (case skip_ws r of
               [] \<Rightarrow> None
             | d # r1 \<Rightarrow>
                 if d = CHR '','' then parse_elements (acc @ [v]) (skip_ws r1)
                 else if d = CHR '']'' then Some (JArray (acc @ [v]), r1)
                 else None)
          else None)"
| "parse_members acc [] = None"
| "parse_members acc (q # r0) =
     (if q = CHR 0x22 then
        (case parse_chars r0 of
           None \<Rightarrow> None
         | Some (k, r1) \<Rightarrow>
             (case skip_ws r1 of
                [] \<Rightarrow> None
              | d # r2 \<Rightarrow>
                  if d = CHR '':'' then
                    (case parse_value (skip_ws r2) of
                       None \<Rightarrow> None
                     | Some (v, r3) \<Rightarrow>
                         if length r3 < length (skip_ws r2) then
                           (case skip_ws r3 of
                              [] \<Rightarrow> None
                            | e # r4 \<Rightarrow>
                                if e = CHR '','' then
                                  parse_members (AList.update k v acc) (skip_ws r4)
                                else if e = CHR ''}'' then
                                  Some (JObject (AList.update k v acc), r4)
                                else None)
                         else None)
                  else None))
      else None)"
  by pat_completeness auto
termination
  apply (relation "measure (\<lambda>x. case x of
          Inl s \<Rightarrow> 2 * length s
        | Inr (Inl (acc, s)) \<Rightarrow> 2 * length s + 1
        | Inr (Inr (acc, s)) \<Rightarrow> 2 * length s + 1)")
  apply (auto dest!: skip_ws_Cons_length parse_chars_length)
  done

text \<open>
  \<^verbatim>\<open>JSON.parse(s)\<close>: one value between optional white space, or \<open>None\<close> for the
  \<^verbatim>\<open>SyntaxError\<close>.
\<close>

definition JSON_parse :: "string \<Rightarrow> json option" where
  "JSON_parse s =
     (case parse_value (skip_ws s) of
        None \<Rightarrow> None
      | Some (v, r) \<Rightarrow> if skip_ws r = [] then Some v else None)"

section \<open>The request client (services/geminiService.ts)\<close>

text \<open>An element of the \<^verbatim>\<open>files\<close> argument, and the \<^verbatim>\<open>inlineData\<close> of a part.\<close>

record file_arg =
  data :: string
  mimeType :: string

record inline_data =
  inline_bytes :: string
  inline_mimeType :: string

datatype part = TextPart string | InlineDataPart inline_data

text \<open>The template literal of the text part, with its line breaks and indentation.\<close>

definition instruction :: "string \<Rightarrow> string \<Rightarrow> string \<Rightarrow> string" where
  "instruction notes slides context =
     ''Analyze the following meeting materials and provide structured intelligence.\<newline>''
     @ ''    \<newline>''
     @ ''    Notes: '' @ notes @ ''\<newline>''
     @ ''    Slides Content: '' @ slides @ ''\<newline>''
     @ ''    Additional Context: '' @ context @ ''\<newline>''
     @ ''    \<newline>''
     @ ''    Return a detailed JSON report according to the schema.''"

text \<open>\<^verbatim>\<open>file.data.split(',')[1] || file.data\<close>\<close>

definition attachment_data :: "string \<Rightarrow> string" where
  "attachment_data d = or_js (index_js (split_js CHR '','' d) 1) d"

definition attachment :: "file_arg \<Rightarrow> part" where
  "attachment f =
     InlineDataPart \<lparr>inline_bytes = attachment_data (data f), inline_mimeType = mimeType f\<rparr>"

text \<open>The \<^verbatim>\<open>for (const file of files) parts.push(...)\<close> loop, pushing onto \<open>parts\<close>.\<close>

fun push_files :: "part list \<Rightarrow> file_arg list \<Rightarrow> part list" where
  "push_files parts [] = parts"
| "push_files parts (f # fs) = push_files (parts @ [attachment f]) fs"

definition build_parts :: "string \<Rightarrow> string \<Rightarrow> string \<Rightarrow> file_arg list \<Rightarrow> part list" where
  "build_parts notes slides context files =
     push_files [TextPart (instruction notes slides context)] files"

text \<open>
  The response schema sent with the request: the \<^verbatim>\<open>Type\<close> of each node, the
  description of a leaf where the source gives one, the properties of an object and the
  list of its required properties (empty where the source gives none).
\<close>

datatype schema =
    STRING "string option"
  | NUMBER "string option"
  | ARRAY schema
  | OBJECT "(string \<times> schema) list" "string list"

definition reportSchema :: schema where
  "reportSchema =
     OBJECT
       [(''meetingType'',
           STRING (Some ''The type of meeting (e.g., Investor Meeting, Strategy Sync)'')),
        (''confidence'', NUMBER (Some ''Confidence score of the analysis (0-100)'')),
        (''sentiment'', STRING (Some ''Overall detected sentiment (e.g., Highly Optimistic)'')),
        (''focusArea'', STRING (Some ''Primary focus area (e.g., Revenue Growth)'')),
        (''summary'',
           OBJECT
             [(''overview'', STRING None),
              (''objective'', STRING None),
              (''strategicImportance'', STRING None),
              (''criticalDecision'', STRING None)]
             [''overview'', ''objective'', ''strategicImportance'', ''criticalDecision'']),
        (''strategicIntelligence'',
           OBJECT
             [(''stakeholders'',
                 ARRAY (OBJECT
                   [(''role'', STRING None),
                    (''sentiment'', STRING (Some ''e.g., Supportive, Neutral, Champion''))]
                   [])),
              (''powerDynamics'', STRING None),
              (''incentiveAnalysis'', STRING None)]
             []),
        (''riskIdentification'',
           OBJECT
             [(''risks'',
                 ARRAY (OBJECT
                   [(''type'', STRING (Some ''e.g., Strategic, Political, Execution'')),
                    (''title'', STRING None),
                    (''description'', STRING None)]
                   [])),
              (''hiddenObjection'', STRING None)]
             []),
        (''talkingPoints'',
           OBJECT
             [(''points'',
                 ARRAY (OBJECT
                   [(''title'', STRING None),
                    (''description'', STRING None)]
                   [])),
              (''framingStrategy'', STRING None)]
             []),
        (''objections'',
           ARRAY (OBJECT
             [(''question'', STRING None),
              (''response'', STRING None)]
             [])),
        (''nextSteps'',
           ARRAY (OBJECT
             [(''action'', STRING None),
              (''ownership'', STRING None),
              (''timeline'', STRING None),
              (''status'', STRING (Some ''e.g., PENDING, QUEUED''))]
             [])),
        (''executiveBrief'', STRING (Some ''A 60-second verbal script for the executive'')),
        (''coverImagePrompt'',
           STRING (Some ''A detailed prompt for generating a cover image''))]
       [''meetingType'', ''confidence'', ''sentiment'', ''focusArea'', ''summary'',
        ''strategicIntelligence'', ''riskIdentification'', ''talkingPoints'', ''objections'',
        ''nextSteps'', ''executiveBrief'', ''coverImagePrompt'']"

text \<open>
  What it means for a parsed value to conform to a schema: the value has the declared type,
  every required property of an object is present and every declared property that is
  present conforms. Properties the schema does not declare are not constrained.
\<close>

fun conforms :: "schema \<Rightarrow> json \<Rightarrow> bool" where
  "conforms (STRING d) v = (case v of JString w \<Rightarrow> True | _ \<Rightarrow> False)"
| "conforms (NUMBER d) v = (case v of JNumber n \<Rightarrow> True | _ \<Rightarrow> False)"
| "conforms (ARRAY items) v =
     (case v of JArray xs \<Rightarrow> (\<forall>x \<in> set xs. conforms items x) | _ \<Rightarrow> False)"
| "conforms (OBJECT properties required) v =
     (case v of
        JObject ps \<Rightarrow>
          (\<forall>k \<in> set required. map_of ps k \<noteq> None) \<and>
          (\<forall>p \<in> set properties.
             case map_of ps (fst p) of None \<Rightarrow> True | Some x \<Rightarrow> conforms (snd p) x)
      | _ \<Rightarrow> False)"

text \<open>The argument of \<^verbatim>\<open>ai.models.generateContent\<close>.\<close>

record request =
  model :: string
  contents :: "part list list"
  responseMimeType :: string
  responseSchema :: schema

text \<open>
  How the call to the SDK settles: it rejects (any failure of the client, of the network or
  of the service, with its message), or it resolves to a response whose \<^verbatim>\<open>text\<close> is a
  string or \<^verbatim>\<open>undefined\<close>.
\<close>

datatype service_outcome = Rejected string | Responded "string option"

text \<open>
  The exceptions of the program: a rejected call to the service, the \<^verbatim>\<open>SyntaxError\<close> of
  \<^verbatim>\<open>JSON.parse\<close>, and the \<^verbatim>\<open>TypeError\<close> of reading a property of \<^verbatim>\<open>undefined\<close> or
  \<^verbatim>\<open>null\<close> or of calling what is not a function.
\<close>

datatype error = ServiceError string | SyntaxError | TypeError

definition generateMeetingIntelligence_request ::
  "string \<Rightarrow> string \<Rightarrow> string \<Rightarrow> file_arg list \<Rightarrow> request" where
  "generateMeetingIntelligence_request notes slides context files =
     \<lparr>model = ''gemini-3.1-pro-preview'',
      contents = [build_parts notes slides context files],
      responseMimeType = ''application/json'',
      responseSchema = reportSchema\<rparr>"

text \<open>
  The code after the \<^verbatim>\<open>await\<close>: a rejection propagates, and
  \<^verbatim>\<open>JSON.parse(response.text || "{}")\<close> returns the parsed value or throws a
  \<^verbatim>\<open>SyntaxError\<close>.
\<close>

definition generateMeetingIntelligence_result :: "service_outcome \<Rightarrow> error + json" where
  "generateMeetingIntelligence_result outcome =
     (case outcome of
        Rejected msg \<Rightarrow> Inl (ServiceError msg)
      | Responded txt \<Rightarrow>
          (case JSON_parse (or_js txt ''{}'') of
             None \<Rightarrow> Inl SyntaxError
           | Some v \<Rightarrow> Inr v))"

text \<open>
  The whole function. The service is a parameter \<open>svc\<close> that answers the one request;
  \<open>net\<close> is the list of the requests sent so far, to which the call adds its own.
\<close>

definition generateMeetingIntelligence ::
  "(request \<Rightarrow> service_outcome) \<Rightarrow> string \<Rightarrow> string \<Rightarrow> string \<Rightarrow> file_arg list \<Rightarrow>
     request list \<Rightarrow> (error + json) \<times> request list" where
  "generateMeetingIntelligence svc notes slides context files net =
     (let req = generateMeetingIntelligence_request notes slides context files
      in (generateMeetingIntelligence_result (svc req), net @ [req]))"

section \<open>The application (App.tsx)\<close>

datatype tab = GENERATE | REPORTS

datatype step = INPUT | ANALYZING | REPORT

definition MOCK_REPORT :: json where
  \<open>MOCK_REPORT =
     JObject
       [(''id'', JString ''mock-1''),
        (''date'', JString ''Oct 12, 2024''),
        (''title'', JString ''Strategy Sync - Q4 Growth''),
        (''meetingType'', JString ''Strategic Planning''),
        (''confidence'', JNumber ''98''),
        (''sentiment'', JString ''Positive''),
        (''focusArea'', JString ''Expansion''),
        (''summary'',
           JObject
             [(''overview'',
                 JString ''High-level alignment on Q4 expansion into EMEA markets.''),
              (''objective'', JString ''Finalize budget allocation for regional hubs.''),
              (''strategicImportance'',
                 JString ''Critical for meeting annual revenue targets.''),
              (''criticalDecision'',
                 JString ''Approved $2.4M for Berlin and Dubai offices.'')]),
        (''strategicIntelligence'',
           JObject
             [(''stakeholders'',
                 JArray
                   [JObject [(''role'', JString ''CEO''), (''sentiment'', JString ''Champion'')],
                    JObject [(''role'', JString ''CFO''), (''sentiment'', JString ''Supportive'')],
                    JObject [(''role'', JString ''Head of Sales''),
                             (''sentiment'', JString ''Neutral'')]]),
              (''powerDynamics'',
                 JString ''Strong alignment between executive leadership; sales team requires more incentive clarity.''),
              (''incentiveAnalysis'',
                 JString ''Performance bonuses tied to regional launch speed.'')]),
        (''riskIdentification'',
           JObject
             [(''risks'',
                 JArray
                   [JObject
                      [(''type'', JString ''Strategic''),
                       (''title'', JString ''Market Saturation''),
                       (''description'',
                          JString ''Competitor X recently launched similar services in Berlin.'')],
                    JObject
                      [(''type'', JString ''Political''),
                       (''title'', JString ''Regulatory Hurdles''),
                       (''description'',
                          JString ''New data privacy laws in UAE might delay launch.'')]]),
              (''hiddenObjection'',
                 JString ''The CFO is concerned about the long-term lease commitments in Dubai.'')]),
        (''talkingPoints'',
           JObject
             [(''points'',
                 JArray
                   [JObject
                      [(''title'', JString ''Market Opportunity''),
                       (''description'',
                          JString ''EMEA represents a $50B untapped market for our segment.'')],
                    JObject
                      [(''title'', JString ''Operational Readiness''),
                       (''description'',
                          JString ''Core team is already identified and ready to relocate.'')]]),
              (''framingStrategy'',
                 JString ''Focus on "First-Mover Advantage" to counter cost concerns.'')]),
        (''objections'',
           JArray
             [JObject
                [(''question'', JString ''Why Dubai now?''),
                 (''response'',
                    JString ''Strategic gateway to MENA region with favorable tax structures.'')]]),
        (''nextSteps'',
           JArray
             [JObject
                [(''action'', JString ''Sign lease agreements''),
                 (''ownership'', JString ''Legal''),
                 (''timeline'', JString ''Oct 20''),
                 (''status'', JString ''PENDING'')]]),
        (''executiveBrief'',
           JString ''We are moving forward with the EMEA expansion. Budget is approved. Focus is on speed to market. Risks are manageable but require close monitoring of regional regulations.''),
        (''coverImagePrompt'',
           JString ''A futuristic office skyline connecting Berlin and Dubai with glowing digital lines, professional, cinematic lighting.'')]\<close>

text \<open>An entry of the \<^verbatim>\<open>files\<close> state: \<^verbatim>\<open>{ name, type, data }\<close>.\<close>

record uploaded_file =
  file_name :: string
  file_type :: string
  file_data :: string

text \<open>A \<^verbatim>\<open>File\<close> of a file input, as far as the handler reads it: its name and type.\<close>

record browser_file =
  upload_name :: string
  upload_type :: string

text \<open>
  The state of the component (the nine \<^verbatim>\<open>useState\<close> values; \<open>notesText\<close> and \<open>contextText\<close>
  are the states \<^verbatim>\<open>notes\<close> and \<^verbatim>\<open>context\<close>), followed by the state of the browser that the handlers act on:
  the active interval timers, each with the \<^verbatim>\<open>currentAnalysisStep\<close> its callback closed
  over, the pending timeouts, the next timer id, the file readers that are reading, the
  sessions awaiting the service (each with the interval and the \<^verbatim>\<open>files\<close> its
  continuation closed over), the requests sent, the errors logged and the alerts shown.
\<close>

record app_state =
  activeTab :: tab
  step :: step
  notesText :: string
  contextText :: string
  files :: "uploaded_file list"
  report :: "json option"
  reportsHistory :: "json list"
  analysisProgress :: real
  currentAnalysisStep :: nat
  intervals :: "(nat \<times> nat) list"
  timeouts :: "nat list"
  nextTimer :: nat
  reading :: "browser_file list"
  awaiting :: "(nat \<times> uploaded_file list) list"
  sent :: "request list"
  console :: "error list"
  alerts :: "string list"

definition initial_state :: app_state where
  "initial_state =
     \<lparr>activeTab = GENERATE, step = INPUT, notesText = [], contextText = [], files = [],
      report = None, reportsHistory = [MOCK_REPORT], analysisProgress = 0,
      currentAnalysisStep = 0, intervals = [], timeouts = [], nextTimer = 1, reading = [],
      awaiting = [], sent = [], console = [], alerts = []\<rparr>"

definition remove_nth :: "nat \<Rightarrow> 'a list \<Rightarrow> 'a list" where
  "remove_nth k xs = take k xs @ drop (Suc k) xs"

subsection \<open>Navigation and text input\<close>

definition newSession :: "app_state \<Rightarrow> app_state" where
  "newSession s =
     s\<lparr>activeTab := GENERATE, step := INPUT, report := None, files := [], notesText := [],
       contextText := []\<rparr>"

definition navGenerate :: "app_state \<Rightarrow> app_state" where
  "navGenerate s = s\<lparr>activeTab := GENERATE, step := INPUT\<rparr>"

definition navReports :: "app_state \<Rightarrow> app_state" where
  "navReports s = s\<lparr>activeTab := REPORTS, step := INPUT\<rparr>"

text \<open>A click on the \<open>i\<close>-th entry of \<^verbatim>\<open>reportsHistory.slice(0, 5)\<close> in the sidebar.\<close>

definition recentItemClick :: "nat \<Rightarrow> app_state \<Rightarrow> app_state" where
  "recentItemClick i s =
     (case index_js (take 5 (reportsHistory s)) i of
        None \<Rightarrow> s
      | Some item \<Rightarrow> s\<lparr>report := Some item, step := REPORT, activeTab := REPORTS\<rparr>)"

text \<open>A click on "View Report" in the \<open>i\<close>-th row of the archive table.\<close>

definition viewReportClick :: "nat \<Rightarrow> app_state \<Rightarrow> app_state" where
  "viewReportClick i s =
     (case index_js (reportsHistory s) i of
        None \<Rightarrow> s
      | Some item \<Rightarrow> s\<lparr>report := Some item, step := REPORT\<rparr>)"

definition setContext :: "string \<Rightarrow> app_state \<Rightarrow> app_state" where
  "setContext v s = s\<lparr>contextText := v\<rparr>"

subsection \<open>handleFileUpload\<close>

text \<open>
  \<open>selection\<close> is \<^verbatim>\<open>e.target.files\<close>; \<open>kind\<close> is the second argument
  (\<^verbatim>\<open>'notes'\<close> or \<^verbatim>\<open>'slides'\<close>), which the handler does not read. With a first file,
  a \<^verbatim>\<open>FileReader\<close> starts reading it; nothing else changes until it has loaded.
\<close>

definition handleFileUpload :: "browser_file list \<Rightarrow> string \<Rightarrow> app_state \<Rightarrow> app_state" where
  "handleFileUpload selection kind s =
     (case index_js selection 0 of
        None \<Rightarrow> s
      | Some file \<Rightarrow> s\<lparr>reading := reading s @ [file]\<rparr>)"

text \<open>
  \<^verbatim>\<open>reader.onload\<close> of the \<open>k\<close>-th reader, with the data URL \<open>base64\<close> that the browser
  produced: \<^verbatim>\<open>setFiles(prev => [...prev, { name, type, data }])\<close>.
\<close>

definition reader_onload :: "nat \<Rightarrow> string \<Rightarrow> app_state \<Rightarrow> app_state" where
  "reader_onload k base64 s =
     (case index_js (reading s) k of
        None \<Rightarrow> s
      | Some file \<Rightarrow>
          s\<lparr>files := files s @
                 [\<lparr>file_name = upload_name file, file_type = upload_type file,
                   file_data = base64\<rparr>],
            reading := remove_nth k (reading s)\<rparr>)"

subsection \<open>Timers\<close>

text \<open>
  \<^verbatim>\<open>setInterval\<close> registers a new interval timer and returns its id; \<open>c\<close> is the
  \<^verbatim>\<open>currentAnalysisStep\<close> that the callback closed over. \<^verbatim>\<open>clearInterval\<close> cancels
  the timer with the given id, if there is one.
\<close>

definition setInterval :: "nat \<Rightarrow> app_state \<Rightarrow> app_state \<times> nat" where
  "setInterval c s =
     (s\<lparr>intervals := intervals s @ [(nextTimer s, c)], nextTimer := Suc (nextTimer s)\<rparr>,
      nextTimer s)"

definition clearInterval :: "nat \<Rightarrow> app_state \<Rightarrow> app_state" where
  "clearInterval interval s =
     s\<lparr>intervals := filter (\<lambda>p. fst p \<noteq> interval) (intervals s)\<rparr>"

text \<open>\<^verbatim>\<open>setTimeout(() => setStep('REPORT'), 1000)\<close>; the program drops the id.\<close>

definition setTimeout :: "app_state \<Rightarrow> app_state" where
  "setTimeout s = s\<lparr>timeouts := timeouts s @ [nextTimer s], nextTimer := Suc (nextTimer s)\<rparr>"

text \<open>A pending timeout fires once: \<^verbatim>\<open>setStep('REPORT')\<close>.\<close>

definition timeout_fire :: "nat \<Rightarrow> app_state \<Rightarrow> app_state" where
  "timeout_fire t s =
     (if t \<in> set (timeouts s)
      then s\<lparr>step := REPORT, timeouts := removeAll t (timeouts s)\<rparr>
      else s)"

text \<open>
  The callback of the progress interval: the updater passed to
  \<^verbatim>\<open>setAnalysisProgress\<close>, run on the current progress \<open>prev\<close>. \<open>rnd\<close> is the value
  of \<^verbatim>\<open>Math.random()\<close>, \<open>c\<close> the \<^verbatim>\<open>currentAnalysisStep\<close> of the closure. The
  progress is a real number here; the rounding of floating-point addition is not modelled.
\<close>

definition interval_callback :: "nat \<Rightarrow> nat \<Rightarrow> real \<Rightarrow> app_state \<Rightarrow> app_state" where
  "interval_callback interval c rnd s =
     (let prev = analysisProgress s in
      if prev \<ge> 100 then (clearInterval interval s)\<lparr>analysisProgress := 100\<rparr>
      else
        let next = prev + rnd * 15;
            s1 = (if next > 25 \<and> c = 0 then s\<lparr>currentAnalysisStep := 1\<rparr> else s);
            s2 = (if next > 50 \<and> c = 1 then s1\<lparr>currentAnalysisStep := 2\<rparr> else s1);
            s3 = (if next > 75 \<and> c = 2 then s2\<lparr>currentAnalysisStep := 3\<rparr> else s2)
        in s3\<lparr>analysisProgress := next\<rparr>)"

text \<open>The browser runs the callback of an interval only while the interval is active.\<close>

definition interval_fire :: "nat \<Rightarrow> real \<Rightarrow> app_state \<Rightarrow> app_state" where
  "interval_fire interval rnd s =
     (case map_of (intervals s) interval of
        None \<Rightarrow> s
      | Some c \<Rightarrow> interval_callback interval c rnd s)"

subsection \<open>startAnalysis\<close>

text \<open>The decimal digits of a number: the property names of an array.\<close>

fun show_nat :: "nat \<Rightarrow> string" where
  "show_nat n =
     (if n < 10 then [char_of (48 + n)]
      else show_nat (n div 10) @ [char_of (48 + n mod 10)])"

text \<open>
  A string cut into its UTF-16 code units, where a code unit outside ASCII stands as the two
  or three bytes that \<open>encode_unit\<close> gives it.
\<close>

fun code_units :: "string \<Rightarrow> string list" where
  "code_units [] = []"
| "code_units (c # s) =
     (let n = (if (of_char c :: nat) < 0xC0 then 0 else if (of_char c :: nat) < 0xE0 then 1 else 2)
      in (c # take n s) # code_units (drop n s))"

text \<open>
  The own enumerable properties that \<^verbatim>\<open>{...result}\<close> copies: those of an object, the
  elements of an array under their indices, the code units of a string under their indices,
  and none for a number, a boolean or \<^verbatim>\<open>null\<close>.
\<close>

definition spread :: "json \<Rightarrow> (string \<times> json) list" where
  "spread v =
     (case v of
        JObject ps \<Rightarrow> ps
      | JArray xs \<Rightarrow> zip (map show_nat [0..<length xs]) xs
      | JString w \<Rightarrow>
          zip (map show_nat [0..<length (code_units w)]) (map JString (code_units w))
      | _ \<Rightarrow> [])"

text \<open>\<^verbatim>\<open>files[0]?.name.split('.')[0] || 'Untitled Session'\<close>\<close>

definition title_of :: "uploaded_file list \<Rightarrow> string" where
  "title_of fs =
     or_js
       (case index_js fs 0 of
          None \<Rightarrow> None
        | Some f \<Rightarrow> index_js (split_js CHR ''.'' (file_name f)) 0)
       ''Untitled Session''"

text \<open>
  The object literal \<^verbatim>\<open>{ ...result, id: ..., date: ..., title: ... }\<close>. \<open>rid\<close> is the
  value of \<^verbatim>\<open>Math.random().toString(36).substr(2, 9)\<close> and \<open>today\<close> the value of
  \<^verbatim>\<open>new Date().toLocaleDateString(...)\<close>. A later property of the literal replaces the
  value of an earlier one with the same name.
\<close>

definition finalReport :: "json \<Rightarrow> string \<Rightarrow> string \<Rightarrow> uploaded_file list \<Rightarrow> json" where
  "finalReport result rid today fs =
     JObject
       (AList.update ''title'' (JString (title_of fs))
         (AList.update ''date'' (JString today)
           (AList.update ''id'' (JString rid) (spread result))))"

text \<open>The property \<open>k\<close> of a report, \<open>None\<close> when it is absent.\<close>

definition field :: "json \<Rightarrow> string \<Rightarrow> json option" where
  "field v k = (case v of JObject ps \<Rightarrow> map_of ps k | _ \<Rightarrow> None)"

text \<open>
  The statements before the \<^verbatim>\<open>try\<close>: the three state updates and the interval. The
  closure of the interval callback holds the \<^verbatim>\<open>currentAnalysisStep\<close> of the render in
  which \<^verbatim>\<open>startAnalysis\<close> was created. The result is the new state and the interval id.
\<close>

definition startAnalysis_begin :: "app_state \<Rightarrow> app_state \<times> nat" where
  "startAnalysis_begin s =
     setInterval (currentAnalysisStep s)
       (s\<lparr>step := ANALYZING, analysisProgress := 0, currentAnalysisStep := 0\<rparr>)"

text \<open>\<^verbatim>\<open>files.map(f => ({ data: f.data, mimeType: f.type }))\<close>\<close>

definition file_args :: "uploaded_file list \<Rightarrow> file_arg list" where
  "file_args fs = map (\<lambda>f. \<lparr>data = file_data f, mimeType = file_type f\<rparr>) fs"

text \<open>
  The \<^verbatim>\<open>try\<close> block from the point where the awaited call has settled with \<open>awaited\<close>.
  The result is the state the block leaves and the exception it throws, if any: a rejection
  is thrown at the \<^verbatim>\<open>await\<close>, before any state update; a result is stored. \<open>fs\<close> is
  the \<^verbatim>\<open>files\<close> of the closure.
\<close>

definition startAnalysis_try ::
  "uploaded_file list \<Rightarrow> error + json \<Rightarrow> string \<Rightarrow> string \<Rightarrow> app_state \<Rightarrow>
     app_state \<times> error option" where
  "startAnalysis_try fs awaited rid today s =
     (case awaited of
        Inl e \<Rightarrow> (s, Some e)
      | Inr result \<Rightarrow>
          (let final = finalReport result rid today fs
           in (setTimeout
                 (s\<lparr>report := Some final,
                    reportsHistory := final # reportsHistory s,
                    analysisProgress := 100,
                    currentAnalysisStep := 3\<rparr>),
               None)))"

text \<open>The \<^verbatim>\<open>catch\<close> block: log, back to the input step, alert.\<close>

definition startAnalysis_catch :: "error \<Rightarrow> app_state \<Rightarrow> app_state" where
  "startAnalysis_catch e s =
     s\<lparr>console := console s @ [e],
       step := INPUT,
       alerts := alerts s @ [''Failed to generate report. Please try again.'']\<rparr>"

text \<open>
  \<^verbatim>\<open>try { ... } catch (error) { ... } finally { clearInterval(interval) }\<close> from the point
  where the awaited call has settled. The second component is the exception that leaves
  \<^verbatim>\<open>startAnalysis\<close>, if any.
\<close>

definition startAnalysis_settle ::
  "nat \<Rightarrow> uploaded_file list \<Rightarrow> error + json \<Rightarrow> string \<Rightarrow> string \<Rightarrow> app_state \<Rightarrow>
     app_state \<times> error option" where
  "startAnalysis_settle interval fs awaited rid today s =
     (case startAnalysis_try fs awaited rid today s of
        (s1, None) \<Rightarrow> (clearInterval interval s1, None)
      | (s1, Some e) \<Rightarrow> (clearInterval interval (startAnalysis_catch e s1), None))"

text \<open>
  One session from the click to the end of the handler, with no other event in between:
  the service \<open>svc\<close> answers the request at once.
\<close>

definition startAnalysis ::
  "(request \<Rightarrow> service_outcome) \<Rightarrow> string \<Rightarrow> string \<Rightarrow> app_state \<Rightarrow>
     app_state \<times> error option" where
  "startAnalysis svc rid today s =
     (let (s1, interval) = startAnalysis_begin s;
          (awaited, net) =
             generateMeetingIntelligence svc (notesText s) [] (contextText s)
               (file_args (files s)) (sent s1)
      in startAnalysis_settle interval (files s) awaited rid today (s1\<lparr>sent := net\<rparr>))"

subsection \<open>The application as a transition system\<close>

text \<open>
  The same handler in two steps, as the browser runs it: the click runs it up to the
  \<^verbatim>\<open>await\<close> and leaves a session awaiting the service; when the service settles the
  \<open>k\<close>-th awaiting session with \<open>outcome\<close>, the rest of the handler runs.
\<close>

definition generate_click :: "app_state \<Rightarrow> app_state" where
  "generate_click s =
     (let (s1, interval) = startAnalysis_begin s;
          req = generateMeetingIntelligence_request (notesText s) [] (contextText s)
                  (file_args (files s))
      in s1\<lparr>sent := sent s1 @ [req], awaiting := awaiting s1 @ [(interval, files s)]\<rparr>)"

definition request_settled ::
  "nat \<Rightarrow> service_outcome \<Rightarrow> string \<Rightarrow> string \<Rightarrow> app_state \<Rightarrow>
     app_state \<times> error option" where
  "request_settled k outcome rid today s =
     (case index_js (awaiting s) k of
        None \<Rightarrow> (s, None)
      | Some (interval, fs) \<Rightarrow>
          startAnalysis_settle interval fs (generateMeetingIntelligence_result outcome)
            rid today (s\<lparr>awaiting := remove_nth k (awaiting s)\<rparr>))"

text \<open>
  Everything that can happen to the application: the clicks and inputs of the user and the
  callbacks of the browser. The conditions under which the page shows a button are left
  out, so every run of the application is a run of this system.
\<close>

datatype event =
    NewSessionClick
  | NavGenerateClick
  | NavReportsClick
  | RecentItemClick nat
  | ViewReportClick nat
  | ContextInput string
  | FileInput "browser_file list" string
  | ReaderLoad nat string
  | GenerateClick
  | IntervalFire nat real
  | TimeoutFire nat
  | RequestSettled nat service_outcome string string

fun handle :: "event \<Rightarrow> app_state \<Rightarrow> app_state" where
  "handle NewSessionClick s = newSession s"
| "handle NavGenerateClick s = navGenerate s"
| "handle NavReportsClick s = navReports s"
| "handle (RecentItemClick i) s = recentItemClick i s"
| "handle (ViewReportClick i) s = viewReportClick i s"
| "handle (ContextInput v) s = setContext v s"
| "handle (FileInput selection kind) s = handleFileUpload selection kind s"
| "handle (ReaderLoad k base64) s = reader_onload k base64 s"
| "handle GenerateClick s = generate_click s"
| "handle (IntervalFire interval rnd) s = interval_fire interval rnd s"
| "handle (TimeoutFire t) s = timeout_fire t s"
| "handle (RequestSettled k outcome rid today) s = fst (request_settled k outcome rid today s)"

fun run :: "app_state \<Rightarrow> event list \<Rightarrow> app_state" where
  "run s [] = s"
| "run s (e # es) = run (handle e s) es"

subsection \<open>Rendering\<close>

text \<open>
  The exceptions that the component function throws while it evaluates its JSX. The page
  reads properties of the reports under fixed names and calls \<^verbatim>\<open>.map\<close> on some of them;
  what React does with the values read is not modelled.

  \<open>get_prop v p\<close> is the read \<^verbatim>\<open>v.p\<close> for the names that the page reads: a
  \<^verbatim>\<open>TypeError\<close> on \<^verbatim>\<open>undefined\<close> (here \<open>None\<close>) and on \<^verbatim>\<open>null\<close>, the property or
  \<^verbatim>\<open>undefined\<close> on an object, and \<^verbatim>\<open>undefined\<close> on a string, a number, a boolean and
  an array, whose prototypes have none of these names.
\<close>

definition get_prop :: "json option \<Rightarrow> string \<Rightarrow> error + json option" where
  "get_prop v p =
     (case v of
        None \<Rightarrow> Inl TypeError
      | Some JNull \<Rightarrow> Inl TypeError
      | Some (JObject ps) \<Rightarrow> Inr (map_of ps p)
      | Some _ \<Rightarrow> Inr None)"

text \<open>A chain of reads \<^verbatim>\<open>v.p1.p2\<close>, from left to right.\<close>

fun read_path :: "json option \<Rightarrow> string list \<Rightarrow> error + json option" where
  "read_path v [] = Inr v"
| "read_path v (p # ps) = (case get_prop v p of Inl e \<Rightarrow> Inl e | Inr x \<Rightarrow> read_path x ps)"

text \<open>The first exception of expressions evaluated one after the other.\<close>

fun first_error :: "error option list \<Rightarrow> error option" where
  "first_error [] = None"
| "first_error (None # xs) = first_error xs"
| "first_error (Some e # xs) = Some e"

text \<open>
  The exception of the expression \<^verbatim>\<open>{v.p1.p2}\<close>, and of
  \<^verbatim>\<open>{v.p1.p2.map((x, i) => ...)}\<close> where \<open>f\<close> gives the exception of the callback on an
  element: \<^verbatim>\<open>.map\<close> is a function on arrays alone.
\<close>

definition read_error :: "json \<Rightarrow> string list \<Rightarrow> error option" where
  "read_error v ps = (case read_path (Some v) ps of Inl e \<Rightarrow> Some e | Inr x \<Rightarrow> None)"

definition map_error :: "json \<Rightarrow> string list \<Rightarrow> (json \<Rightarrow> error option) \<Rightarrow> error option" where
  "map_error v ps f =
     (case read_path (Some v) ps of
        Inl e \<Rightarrow> Some e
      | Inr (Some (JArray xs)) \<Rightarrow> first_error (map f xs)
      | Inr _ \<Rightarrow> Some TypeError)"

text \<open>
  The callbacks of the five \<^verbatim>\<open>.map\<close> calls of the report view, and the view itself
  (\<^verbatim>\<open>step === 'REPORT' && report && ...\<close>): its reads in the order of the source, each
  expression once.
\<close>

definition stakeholder_item :: "json \<Rightarrow> error option" where
  "stakeholder_item x = first_error [read_error x [''role''], read_error x [''sentiment'']]"

definition risk_item :: "json \<Rightarrow> error option" where
  "risk_item x =
     first_error
       [read_error x [''type''], read_error x [''title''], read_error x [''description'']]"

definition point_item :: "json \<Rightarrow> error option" where
  "point_item x = first_error [read_error x [''title''], read_error x [''description'']]"

definition objection_item :: "json \<Rightarrow> error option" where
  "objection_item x = first_error [read_error x [''question''], read_error x [''response'']]"

definition nextStep_item :: "json \<Rightarrow> error option" where
  "nextStep_item x =
     first_error
       [read_error x [''action''], read_error x [''ownership''], read_error x [''timeline''],
        read_error x [''status'']]"

definition report_view :: "json \<Rightarrow> error option" where
  "report_view r =
     first_error
       [read_error r [''confidence''],
        read_error r [''focusArea''],
        read_error r [''summary'', ''overview''],
        read_error r [''summary'', ''objective''],
        read_error r [''summary'', ''strategicImportance''],
        read_error r [''summary'', ''criticalDecision''],
        map_error r [''strategicIntelligence'', ''stakeholders''] stakeholder_item,
        read_error r [''strategicIntelligence'', ''powerDynamics''],
        read_error r [''strategicIntelligence'', ''incentiveAnalysis''],
        map_error r [''riskIdentification'', ''risks''] risk_item,
        read_error r [''riskIdentification'', ''hiddenObjection''],
        map_error r [''talkingPoints'', ''points''] point_item,
        read_error r [''talkingPoints'', ''framingStrategy''],
        map_error r [''objections''] objection_item,
        map_error r [''nextSteps''] nextStep_item,
        read_error r [''executiveBrief''],
        read_error r [''coverImagePrompt'']]"

text \<open>
  An entry of the sidebar (\<^verbatim>\<open>reportsHistory.slice(0, 5).map(...)\<close>) and a row of the
  archive table, shown when \<^verbatim>\<open>activeTab === 'REPORTS' && step !== 'REPORT'\<close>.
\<close>

definition sidebar_item :: "json \<Rightarrow> error option" where
  "sidebar_item item = first_error [read_error item [''id''], read_error item [''title'']]"

definition archive_row :: "json \<Rightarrow> error option" where
  "archive_row item =
     first_error
       [read_error item [''id''], read_error item [''title''], read_error item [''date''],
        read_error item [''meetingType''], read_error item [''focusArea'']]"

text \<open>
  One render of the component. The input form and the progress view read no property of a
  report and throw nothing.
\<close>

definition render :: "app_state \<Rightarrow> error option" where
  "render s =
     first_error
       [first_error (map sidebar_item (take 5 (reportsHistory s))),
        (if activeTab s = REPORTS \<and> step s \<noteq> REPORT
         then first_error (map archive_row (reportsHistory s))
         else None),
        (if step s = REPORT
         then (case report s of None \<Rightarrow> None | Some r \<Rightarrow> report_view r)
         else None)]"

section \<open>Services and a response for the examples\<close>

text \<open>A service that answers every request with the text \<open>txt\<close>, and one that rejects.\<close>

definition service_responding :: "string \<Rightarrow> request \<Rightarrow> service_outcome" where
  "service_responding txt req = Responded (Some txt)"

definition service_rejecting :: "string \<Rightarrow> request \<Rightarrow> service_outcome" where
  "service_rejecting msg req = Rejected msg"

text \<open>
  A response text that conforms to the schema and also carries a \<^verbatim>\<open>title\<close>, and the
  value it parses to.
\<close>

definition canned_response :: string where
  \<open>canned_response = ''{"meetingType":"Budget review","confidence":87,"sentiment":"Neutral","focusArea":"Cost","summary":{"overview":"o","objective":"b","strategicImportance":"s","criticalDecision":"c"},"strategicIntelligence":{"stakeholders":[{"role":"CFO","sentiment":"Supportive"}],"powerDynamics":"p","incentiveAnalysis":"i"},"riskIdentification":{"risks":[],"hiddenObjection":"h"},"talkingPoints":{"points":[],"framingStrategy":"f"},"objections":[],"nextSteps":[{"action":"a","ownership":"w","timeline":"t","status":"PENDING"}],"executiveBrief":"Hold the line on spend.","coverImagePrompt":"A ledger.","title":"from the service"}''\<close>

definition canned_value :: json where
  "canned_value =
     JObject
       [(''meetingType'', JString ''Budget review''),
        (''confidence'', JNumber ''87''),
        (''sentiment'', JString ''Neutral''),
        (''focusArea'', JString ''Cost''),
        (''summary'',
           JObject
             [(''overview'', JString ''o''), (''objective'', JString ''b''),
              (''strategicImportance'', JString ''s''),
              (''criticalDecision'', JString ''c'')]),
        (''strategicIntelligence'',
           JObject
             [(''stakeholders'',
                 JArray [JObject [(''role'', JString ''CFO''),
                                  (''sentiment'', JString ''Supportive'')]]),
              (''powerDynamics'', JString ''p''),
              (''incentiveAnalysis'', JString ''i'')]),
        (''riskIdentification'',
           JObject [(''risks'', JArray []), (''hiddenObjection'', JString ''h'')]),
        (''talkingPoints'',
           JObject [(''points'', JArray []), (''framingStrategy'', JString ''f'')]),
        (''objections'', JArray []),
        (''nextSteps'',
           JArray
             [JObject
                [(''action'', JString ''a''), (''ownership'', JString ''w''),
                 (''timeline'', JString ''t''), (''status'', JString ''PENDING'')]]),
        (''executiveBrief'', JString ''Hold the line on spend.''),
        (''coverImagePrompt'', JString ''A ledger.''),
        (''title'', JString ''from the service'')]"

text \<open>
  A state the application reaches: a context typed and one file uploaded.
\<close>

definition sample_session :: app_state where
  "sample_session =
     run initial_state
       [ContextInput ''Q4 budget'',
        FileInput [\<lparr>upload_name = ''Q4.Report.pdf'', upload_type = ''application/pdf''\<rparr>]
          ''notes'',
        ReaderLoad 0 ''data:application/pdf;base64,JVBERi0='']"

section \<open>The words of the spec: data-URI prefix and base name\<close>

text \<open>
  Following the spec's words ("with any data-URI prefix stripped"): a data URI is
  \<^verbatim>\<open>data:<media type>;base64,<payload>\<close>, and its prefix ends with the first comma. A
  string with no comma has no prefix.
\<close>

definition strip_data_uri_prefix :: "string \<Rightarrow> string" where
  "strip_data_uri_prefix d =
     (if CHR '','' \<in> set d then tl (dropWhile (\<lambda>x. x \<noteq> CHR '','') d) else d)"

text \<open>
  Following the claim's words ("its name with the extension removed"): the base name of a
  file name ends before its last dot. A name with no dot is its own base name.
\<close>

definition base_name :: "string \<Rightarrow> string" where
  "base_name n =
     (if CHR ''.'' \<in> set n then rev (tl (dropWhile (\<lambda>x. x \<noteq> CHR ''.'') (rev n))) else n)"

section \<open>The reports a run completes\<close>

text \<open>
  The report that an event adds to the history: the final report of the session that a
  settled request completes, when the call has resolved with a result. \<open>completed s es\<close>
  lists the reports of the run \<open>es\<close> from \<open>s\<close>, in the order of their completion.
\<close>

definition new_report :: "event \<Rightarrow> app_state \<Rightarrow> json option" where
  "new_report e s =
     (case e of
        RequestSettled k outcome rid today \<Rightarrow>
          (case index_js (awaiting s) k of
             None \<Rightarrow> None
           | Some (interval, fs) \<Rightarrow>
               (case generateMeetingIntelligence_result outcome of
                  Inl err \<Rightarrow> None
                | Inr result \<Rightarrow> Some (finalReport result rid today fs)))
      | _ \<Rightarrow> None)"

fun completed :: "app_state \<Rightarrow> event list \<Rightarrow> json list" where
  "completed s [] = []"
| "completed s (e # es) =
     (case new_report e s of None \<Rightarrow> [] | Some r \<Rightarrow> [r]) @ completed (handle e s) es"

text \<open>A run with three sessions, of which the second fails.\<close>

definition two_sessions :: "event list" where
  "two_sessions =
     [GenerateClick,
      RequestSettled 0 (Responded (Some ''{}'')) ''k3x9q2m1z'' ''Nov 3, 2026'',
      GenerateClick,
      RequestSettled 0 (Rejected ''503'') ''p0o9i8u7y'' ''Nov 4, 2026'',
      NewSessionClick,
      GenerateClick,
      RequestSettled 0 (Responded None) ''a1b2c3d4e'' ''Nov 5, 2026'']"

section \<open>Properties of the parser\<close>

text \<open>Every parser of a piece of the grammar returns a rest no longer than its input.\<close>

lemma parse_digits_length: "parse_digits s = Some (ds, r) \<Longrightarrow> length r < length s"
  by (cases s) (auto simp: parse_digits_def le_imp_less_Suc length_dropWhile_le split: if_splits)

lemma parse_int_length: "parse_int s = Some (i, r) \<Longrightarrow> length r < length s"
  by (cases s) (auto simp: parse_int_def le_imp_less_Suc length_dropWhile_le split: if_splits)

lemma parse_frac_length: "parse_frac s = Some (f, r) \<Longrightarrow> length r \<le> length s"
  by (cases s) (auto simp: parse_frac_def dest!: parse_digits_length
      split: if_splits option.splits)

lemma parse_exp_length: "parse_exp s = Some (e, r) \<Longrightarrow> length r \<le> length s"
  by (cases s) (auto simp: parse_exp_def dest!: parse_digits_length
      split: if_splits option.splits list.splits)

lemma parse_unsigned_length: "parse_unsigned s = Some (n, r) \<Longrightarrow> length r < length s"
  by (auto simp: parse_unsigned_def
      dest!: parse_int_length parse_frac_length parse_exp_length split: option.splits)

lemma parse_number_length: "parse_number s = Some (n, r) \<Longrightarrow> length r < length s"
  by (cases s) (auto simp: parse_number_def dest!: parse_unsigned_length
      split: if_splits option.splits)

lemma parse_literal_length:
  "parse_literal (c # s) = Some (v, r) \<Longrightarrow> length r < length (c # s)"
  by (auto simp: parse_literal_def dest!: parse_number_length split: if_splits option.splits)

lemma parse_consumes:
  "(\<forall>v r. parse_value s = Some (v, r) \<longrightarrow> length r < length s)"
  "(\<forall>v r. parse_elements acc s = Some (v, r) \<longrightarrow> length r < length s)"
  "(\<forall>v r. parse_members acc2 s2 = Some (v, r) \<longrightarrow> length r < length s2)"
proof (induction s and acc s and acc2 s2 rule: parse_value_parse_elements_parse_members.induct)
  case 1
  show ?case by simp
next
  case (2 c r)
  show ?case
  proof (intro allI impI)
    fix v r'
    assume a: "parse_value (c # r) = Some (v, r')"
    show "length r' < length (c # r)"
    proof (cases "skip_ws r")
      case Nil
      with a show ?thesis
        by (auto split: if_splits option.splits dest!: parse_chars_length parse_literal_length)
    next
      case (Cons d r1)
      from skip_ws_Cons_length [OF Cons] have l: "length r1 < length r" by simp
      from Cons 2 have
        ih1: "c = CHR ''{'' \<Longrightarrow> d \<noteq> CHR ''}'' \<Longrightarrow>
          \<forall>v r. parse_members [] (d # r1) = Some (v, r) \<longrightarrow> length r < length (d # r1)"
        and ih2: "c \<noteq> CHR ''{'' \<Longrightarrow> c = CHR ''['' \<Longrightarrow> d \<noteq> CHR '']'' \<Longrightarrow>
          \<forall>v r. parse_elements [] (d # r1) = Some (v, r) \<longrightarrow> length r < length (d # r1)"
        by auto
      from a Cons l ih1 ih2 show ?thesis
        by (auto split: if_splits option.splits dest!: parse_chars_length parse_literal_length)
    qed
  qed
next
  case (3 acc s)
  show ?case
  proof (intro allI impI)
    fix v r'
    assume a: "parse_elements acc s = Some (v, r')"
    then obtain x r where p: "parse_value s = Some (x, r)" and l: "length r < length s"
      by (auto split: option.splits if_splits)
    show "length r' < length s"
    proof (cases "skip_ws r")
      case Nil
      with a p l show ?thesis by simp
    next
      case (Cons d r1)
      from skip_ws_Cons_length [OF Cons] have l1: "length (skip_ws r1) < length r"
        and l2: "length r1 < length r" by simp_all
      from 3(2) [OF p refl l Cons] have
        "d = CHR '','' \<Longrightarrow>
          \<forall>v r. parse_elements (acc @ [x]) (skip_ws r1) = Some (v, r) \<longrightarrow>
            length r < length (skip_ws r1)"
        by simp
      with a p l Cons l1 l2 show ?thesis
        by (auto split: if_splits)
    qed
  qed
next
  case (4 acc)
  show ?case by simp
next
  case (5 acc q r0)
  show ?case
  proof (intro allI impI)
    fix v r'
    assume a: "parse_members acc (q # r0) = Some (v, r')"
    then obtain k r1 where q: "q = CHR 0x22" and p: "parse_chars r0 = Some (k, r1)"
      by (auto split: option.splits if_splits)
    from a q p obtain d r2 where s1: "skip_ws r1 = d # r2" and d: "d = CHR '':''"
      by (auto split: option.splits if_splits list.splits)
    from a q p s1 d obtain x r3 where pv: "parse_value (skip_ws r2) = Some (x, r3)"
      and l3: "length r3 < length (skip_ws r2)"
      by (auto split: option.splits if_splits list.splits)
    from a q p s1 d pv l3 obtain e r4 where s3: "skip_ws r3 = e # r4"
      by (auto split: option.splits if_splits list.splits)
    from parse_chars_length [OF p] have a1: "length r1 < length r0" .
    from skip_ws_Cons_length [OF s1] have a2: "length r2 < length r1" by simp
    from length_skip_ws [of r2] have a3: "length (skip_ws r2) \<le> length r2" .
    from skip_ws_Cons_length [OF s3] have a4: "length r4 < length r3"
      and a5: "length (skip_ws r4) < length r3" by simp_all
    from 5(2) [OF q p refl s1 d pv refl l3 s3] have
      "e = CHR '','' \<Longrightarrow>
         \<forall>v r. parse_members (AList.update k x acc) (skip_ws r4) = Some (v, r) \<longrightarrow>
           length r < length (skip_ws r4)"
      by simp
    with a q p s1 d pv l3 s3 a1 a2 a3 a4 a5 show "length r' < length (q # r0)"
      by (auto split: if_splits)
  qed
qed

lemma parse_value_consumes: "parse_value s = Some (v, r) \<Longrightarrow> length r < length s"
  using parse_consumes(1) by blast

section \<open>Properties of the request\<close>

lemma split_js_not_Nil: "split_js c s \<noteq> []"
  by (induction s) (auto split: list.splits)

lemma split_js_first: "index_js (split_js c s) 0 = Some (takeWhile (\<lambda>x. x \<noteq> c) s)"
  by (induction s) (auto simp: index_js_def split: list.splits)

lemma split_js_prefix: "c \<notin> set p \<Longrightarrow> split_js c (p @ c # rest) = p # split_js c rest"
  by (induction p) (auto split: list.splits)

lemma split_js_no_sep: "c \<notin> set s \<Longrightarrow> split_js c s = [s]"
  by (induction s) (auto split: list.splits)

text \<open>The loop pushes one attachment per file, in the order of the files.\<close>

lemma push_files_append: "push_files parts fs = parts @ map attachment fs"
  by (induction fs arbitrary: parts) auto

lemma build_parts_shape:
  "build_parts notes slides context fs =
     TextPart (instruction notes slides context) # map attachment fs"
  by (simp add: build_parts_def push_files_append)

text \<open>
  On a data URI whose payload is not empty and has no comma, and on a string with no comma,
  the attachment carries what the spec asks for.
\<close>

lemma attachment_data_strips:
  assumes "CHR '','' \<notin> set p" and "CHR '','' \<notin> set b" and "b \<noteq> []"
  shows "attachment_data (p @ CHR '','' # b) = b"
  using assms
  by (simp add: attachment_data_def split_js_prefix split_js_no_sep index_js_def or_js_def)

lemma attachment_data_no_comma: "CHR '','' \<notin> set d \<Longrightarrow> attachment_data d = d"
  by (simp add: attachment_data_def split_js_no_sep index_js_def or_js_def)

text \<open>
  Claim C1. The request holds one text part followed by one attachment per file, in order,
  with the media type kept and any data-URI prefix stripped from the payload. The code
  does not strip the prefix of a data URI whose payload is empty (the data URL of an empty
  file): \<^verbatim>\<open>split(',')[1]\<close> is then the empty string, which is falsy, and
  \<^verbatim>\<open>|| file.data\<close> sends the whole data URI.
\<close>

theorem attachment_keeps_prefix_of_empty_payload:
  "attachment_data ''data:text/plain;base64,'' = ''data:text/plain;base64,''
   \<and> strip_data_uri_prefix ''data:text/plain;base64,'' = []
   \<and> contents (generateMeetingIntelligence_request notes slides context
         [\<lparr>data = ''data:text/plain;base64,'', mimeType = ''text/plain''\<rparr>])
       = [[TextPart (instruction notes slides context),
           InlineDataPart \<lparr>inline_bytes = ''data:text/plain;base64,'',
                            inline_mimeType = ''text/plain''\<rparr>]]"
  by (simp add: attachment_data_def index_js_def or_js_def strip_data_uri_prefix_def
        generateMeetingIntelligence_request_def build_parts_def attachment_def)

section \<open>Properties of the file input\<close>

text \<open>
  Claim C10. A file-selection event with an empty selection leaves the state unchanged. No
  selection changes the collected files, the notes or the context by itself. When the
  reader of a selection has loaded, the state differs from the state before the selection
  in the collected files alone, which have one more entry at their end: the first file of
  the selection with its name, its type and the data URL read.
\<close>

theorem handleFileUpload_appends_first_file:
  "handleFileUpload [] kind s = s
   \<and> files (handleFileUpload selection kind s) = files s
   \<and> notesText (handleFileUpload selection kind s) = notesText s
   \<and> contextText (handleFileUpload selection kind s) = contextText s
   \<and> reader_onload (length (reading s)) base64 (handleFileUpload (f # rest) kind s)
       = s\<lparr>files := files s @
               [\<lparr>file_name = upload_name f, file_type = upload_type f, file_data = base64\<rparr>]\<rparr>"
  by (simp add: handleFileUpload_def reader_onload_def index_js_def remove_nth_def
        split: option.splits)

section \<open>Properties of the response handling\<close>

lemma JSON_parse_empty_object: "JSON_parse ''{}'' = Some (JObject [])"
  by code_simp

lemma JSON_parse_Nil: "JSON_parse [] = None"
  by (simp add: JSON_parse_def)

lemma startAnalysis_resolved:
  assumes "generateMeetingIntelligence_result
             (svc (generateMeetingIntelligence_request (notesText s) [] (contextText s)
                (file_args (files s)))) = Inr result"
  shows "startAnalysis svc rid today s =
     (s\<lparr>step := ANALYZING,
        report := Some (finalReport result rid today (files s)),
        reportsHistory := finalReport result rid today (files s) # reportsHistory s,
        analysisProgress := 100,
        currentAnalysisStep := 3,
        intervals := filter (\<lambda>p. fst p \<noteq> nextTimer s) (intervals s),
        timeouts := timeouts s @ [Suc (nextTimer s)],
        nextTimer := Suc (Suc (nextTimer s)),
        sent := sent s @ [generateMeetingIntelligence_request (notesText s) []
                            (contextText s) (file_args (files s))]\<rparr>,
      None)"
  using assms
  by (simp add: startAnalysis_def startAnalysis_begin_def setInterval_def
      generateMeetingIntelligence_def startAnalysis_settle_def startAnalysis_try_def
      setTimeout_def clearInterval_def Let_def)

lemma startAnalysis_rejected:
  assumes "generateMeetingIntelligence_result
             (svc (generateMeetingIntelligence_request (notesText s) [] (contextText s)
                (file_args (files s)))) = Inl e"
  shows "startAnalysis svc rid today s =
     (s\<lparr>step := INPUT,
        analysisProgress := 0,
        currentAnalysisStep := 0,
        intervals := filter (\<lambda>p. fst p \<noteq> nextTimer s) (intervals s),
        nextTimer := Suc (nextTimer s),
        sent := sent s @ [generateMeetingIntelligence_request (notesText s) []
                            (contextText s) (file_args (files s))],
        console := console s @ [e],
        alerts := alerts s @ [''Failed to generate report. Please try again.'']\<rparr>,
      None)"
  using assms
  by (simp add: startAnalysis_def startAnalysis_begin_def setInterval_def
      generateMeetingIntelligence_def startAnalysis_settle_def startAnalysis_try_def
      startAnalysis_catch_def clearInterval_def Let_def)

lemma conforms_reportSchema_object: "conforms reportSchema v \<Longrightarrow> \<exists>ps. v = JObject ps"
  by (cases v) (simp_all add: reportSchema_def)

lemma field_finalReport:
  "field (finalReport result rid today fs) k =
     (if k = ''title'' then Some (JString (title_of fs))
      else if k = ''date'' then Some (JString today)
      else if k = ''id'' then Some (JString rid)
      else map_of (spread result) k)"
  by (simp add: field_def finalReport_def update_conv')

lemma JSON_parse_not_json: "JSON_parse ''not json'' = None"
  by code_simp

lemma parse_canned_response: "JSON_parse canned_response = Some canned_value"
  by code_simp

lemma conforms_canned_value: "conforms reportSchema canned_value"
  by code_simp

text \<open>
  Claim C2, as stated: for every response whose text fails to parse as JSON, the result of
  \<^verbatim>\<open>generateMeetingIntelligence\<close> is an empty object rather than a raised parse error.
  The text \<^verbatim>\<open>not json\<close> fails to parse and the call raises the parse error.
\<close>

theorem unparseable_text_raises:
  "JSON_parse ''not json'' = None
   \<and> fst (generateMeetingIntelligence (service_responding ''not json'') [] [] [] [] [])
       = Inl SyntaxError"
  by (simp add: generateMeetingIntelligence_def generateMeetingIntelligence_result_def
      service_responding_def or_js_def JSON_parse_not_json)

text \<open>
  Claim C2, amended: when the response has no text or an empty text, the result of
  \<^verbatim>\<open>generateMeetingIntelligence\<close> is the empty object; when the text is not empty and
  fails to parse as JSON, the call raises the parse error.
\<close>

theorem generateMeetingIntelligence_on_unparseable_text:
  assumes "svc (generateMeetingIntelligence_request notes slides context fs) = Responded txt"
  shows "(txt = None \<or> txt = Some [] \<longrightarrow>
            fst (generateMeetingIntelligence svc notes slides context fs net) = Inr (JObject []))
       \<and> (\<forall>t. txt = Some t \<and> t \<noteq> [] \<and> JSON_parse t = None \<longrightarrow>
            fst (generateMeetingIntelligence svc notes slides context fs net) = Inl SyntaxError)"
  using assms
  by (auto simp: generateMeetingIntelligence_def generateMeetingIntelligence_result_def
      or_js_def JSON_parse_empty_object Let_def)

theorem generateMeetingIntelligence_on_unparseable_text_witness:
  "fst (generateMeetingIntelligence (service_responding ''not json'') [] [] [] [] [])
     = Inl SyntaxError
   \<and> fst (generateMeetingIntelligence (service_responding []) [] [] [] [] [])
     = Inr (JObject [])"
  using
    generateMeetingIntelligence_on_unparseable_text
      [of "service_responding ''not json''" "[]" "[]" "[]" "[]" "Some ''not json''" "[]"]
    generateMeetingIntelligence_on_unparseable_text
      [of "service_responding []" "[]" "[]" "[]" "[]" "Some []" "[]"]
  by (simp add: service_responding_def JSON_parse_not_json)

text \<open>
  Claim C3. When the text of the response is valid JSON that conforms to the declared
  schema, the session ends without an exception, the report stored (as the current report
  and at the head of the history) is the parsed value with \<^verbatim>\<open>id\<close>, \<^verbatim>\<open>date\<close> and
  \<^verbatim>\<open>title\<close> set from the locally generated values, whatever the response holds under
  those names, and every other property of the report is the property of the parsed value.
\<close>

theorem stored_report_fields:
  assumes "JSON_parse txt = Some v" and "conforms reportSchema v"
  shows "snd (startAnalysis (service_responding txt) rid today s) = None
       \<and> report (fst (startAnalysis (service_responding txt) rid today s))
           = Some (finalReport v rid today (files s))
       \<and> reportsHistory (fst (startAnalysis (service_responding txt) rid today s))
           = finalReport v rid today (files s) # reportsHistory s
       \<and> field (finalReport v rid today (files s)) ''id'' = Some (JString rid)
       \<and> field (finalReport v rid today (files s)) ''date'' = Some (JString today)
       \<and> field (finalReport v rid today (files s)) ''title''
           = Some (JString (title_of (files s)))
       \<and> (\<forall>k. k \<noteq> ''id'' \<and> k \<noteq> ''date'' \<and> k \<noteq> ''title'' \<longrightarrow>
             field (finalReport v rid today (files s)) k = field v k)"
proof -
  from assms(1) have "txt \<noteq> []"
    by (auto simp: JSON_parse_Nil)
  with assms(1) have res:
    "generateMeetingIntelligence_result
       (service_responding txt
          (generateMeetingIntelligence_request (notesText s) [] (contextText s)
             (file_args (files s)))) = Inr v"
    by (simp add: generateMeetingIntelligence_result_def service_responding_def or_js_def)
  from assms(2) obtain ps where v: "v = JObject ps"
    using conforms_reportSchema_object by blast
  have "\<forall>k. k \<noteq> ''id'' \<and> k \<noteq> ''date'' \<and> k \<noteq> ''title'' \<longrightarrow>
          field (finalReport v rid today (files s)) k = field v k"
    unfolding field_finalReport by (simp add: v spread_def field_def)
  then show ?thesis
    by (simp add: startAnalysis_resolved [where svc = "service_responding txt", OF res]
        field_finalReport)
qed

theorem stored_report_fields_witness:
  "report (fst (startAnalysis (service_responding canned_response) ''k3x9q2m1z''
                  ''Nov 3, 2026'' initial_state))
     = Some (finalReport canned_value ''k3x9q2m1z'' ''Nov 3, 2026'' [])
   \<and> field (finalReport canned_value ''k3x9q2m1z'' ''Nov 3, 2026'' []) ''title''
     = Some (JString ''Untitled Session'')
   \<and> field (finalReport canned_value ''k3x9q2m1z'' ''Nov 3, 2026'' []) ''executiveBrief''
     = Some (JString ''Hold the line on spend.'')"
proof -
  have f: "files initial_state = []"
    by (simp add: initial_state_def)
  have t: "title_of [] = ''Untitled Session''"
    by (simp add: title_of_def index_js_def or_js_def)
  have e: "field canned_value ''executiveBrief'' = Some (JString ''Hold the line on spend.'')"
    by (simp add: canned_value_def field_def)
  from stored_report_fields [OF parse_canned_response conforms_canned_value,
      of "''k3x9q2m1z''" "''Nov 3, 2026''" initial_state]
  show ?thesis
    by (simp add: f t e)
qed

section \<open>Properties of a session\<close>

lemma sample_session_eq:
  "sample_session =
     initial_state
       \<lparr>contextText := ''Q4 budget'',
        files := [\<lparr>file_name = ''Q4.Report.pdf'', file_type = ''application/pdf'',
                   file_data = ''data:application/pdf;base64,JVBERi0=''\<rparr>]\<rparr>"
  by (simp add: sample_session_def initial_state_def setContext_def handleFileUpload_def
      reader_onload_def index_js_def remove_nth_def)

lemma rejecting_result:
  "generateMeetingIntelligence_result (service_rejecting msg req) = Inl (ServiceError msg)"
  by (simp add: generateMeetingIntelligence_result_def service_rejecting_def)

text \<open>
  Claim C4, as stated: when the outbound call fails, the session returns to the input state
  and the collected files, the notes and the context are discarded. After a rejected call
  the uploaded file and the context typed are still in the state.
\<close>

theorem failure_keeps_collected_input:
  "files (fst (startAnalysis (service_rejecting ''503'') ''k3x9q2m1z'' ''Nov 3, 2026''
                 sample_session))
     = [\<lparr>file_name = ''Q4.Report.pdf'', file_type = ''application/pdf'',
         file_data = ''data:application/pdf;base64,JVBERi0=''\<rparr>]
   \<and> contextText (fst (startAnalysis (service_rejecting ''503'') ''k3x9q2m1z'' ''Nov 3, 2026''
                 sample_session))
     = ''Q4 budget''"
  by (simp add: startAnalysis_rejected [where svc = "service_rejecting ''503''", OF rejecting_result]
      sample_session_eq)

text \<open>
  Claim C4, amended: when the outbound call fails, the handler ends without an exception,
  the session returns to the input step, the error is logged and the failure alert is
  shown; the collected files, the notes, the context, the current report and the history
  are left as they were.
\<close>

theorem failure_returns_to_input:
  assumes "fst (generateMeetingIntelligence svc (notesText s) [] (contextText s)
                  (file_args (files s)) net) = Inl e"
  shows "snd (startAnalysis svc rid today s) = None
       \<and> step (fst (startAnalysis svc rid today s)) = INPUT
       \<and> files (fst (startAnalysis svc rid today s)) = files s
       \<and> notesText (fst (startAnalysis svc rid today s)) = notesText s
       \<and> contextText (fst (startAnalysis svc rid today s)) = contextText s
       \<and> report (fst (startAnalysis svc rid today s)) = report s
       \<and> reportsHistory (fst (startAnalysis svc rid today s)) = reportsHistory s
       \<and> console (fst (startAnalysis svc rid today s)) = console s @ [e]
       \<and> alerts (fst (startAnalysis svc rid today s))
           = alerts s @ [''Failed to generate report. Please try again.'']"
proof -
  from assms have
    "generateMeetingIntelligence_result
       (svc (generateMeetingIntelligence_request (notesText s) [] (contextText s)
          (file_args (files s)))) = Inl e"
    by (simp add: generateMeetingIntelligence_def Let_def)
  then show ?thesis
    by (simp add: startAnalysis_rejected [where svc = svc])
qed

theorem failure_returns_to_input_witness:
  "step (fst (startAnalysis (service_rejecting ''503'') ''k3x9q2m1z'' ''Nov 3, 2026''
                 sample_session)) = INPUT
   \<and> files (fst (startAnalysis (service_rejecting ''503'') ''k3x9q2m1z'' ''Nov 3, 2026''
                 sample_session)) = files sample_session
   \<and> alerts (fst (startAnalysis (service_rejecting ''503'') ''k3x9q2m1z'' ''Nov 3, 2026''
                 sample_session)) = [''Failed to generate report. Please try again.'']"
proof -
  have "fst (generateMeetingIntelligence (service_rejecting ''503'') (notesText sample_session)
               [] (contextText sample_session) (file_args (files sample_session)) [])
          = Inl (ServiceError ''503'')"
    by (simp add: generateMeetingIntelligence_def Let_def rejecting_result)
  from failure_returns_to_input [OF this, of "''k3x9q2m1z''" "''Nov 3, 2026''"]
  show ?thesis
    by (simp add: sample_session_eq initial_state_def)
qed

text \<open>
  What the handler itself does when the text of the response is not valid JSON: no
  exception leaves \<^verbatim>\<open>startAnalysis\<close>. When the text is not empty the parse error is
  caught, and the session takes the failure path (back to the input step, error logged,
  alert shown, no report stored); when the text is empty the session stores a report that
  holds the locally generated \<^verbatim>\<open>id\<close>, \<^verbatim>\<open>date\<close> and \<^verbatim>\<open>title\<close> and no other property.
\<close>

lemma invalid_json_is_handled:
  assumes "JSON_parse txt = None"
  shows "snd (startAnalysis (service_responding txt) rid today s) = None
       \<and> (txt \<noteq> [] \<longrightarrow>
            step (fst (startAnalysis (service_responding txt) rid today s)) = INPUT
          \<and> report (fst (startAnalysis (service_responding txt) rid today s)) = report s
          \<and> reportsHistory (fst (startAnalysis (service_responding txt) rid today s))
              = reportsHistory s
          \<and> console (fst (startAnalysis (service_responding txt) rid today s))
              = console s @ [SyntaxError]
          \<and> alerts (fst (startAnalysis (service_responding txt) rid today s))
              = alerts s @ [''Failed to generate report. Please try again.''])
       \<and> (txt = [] \<longrightarrow>
            report (fst (startAnalysis (service_responding txt) rid today s))
              = Some (JObject [(''id'', JString rid), (''date'', JString today),
                               (''title'', JString (title_of (files s)))])
          \<and> reportsHistory (fst (startAnalysis (service_responding txt) rid today s))
              = JObject [(''id'', JString rid), (''date'', JString today),
                         (''title'', JString (title_of (files s)))] # reportsHistory s)"
proof (cases "txt = []")
  case True
  then have
    "generateMeetingIntelligence_result
       (service_responding txt
          (generateMeetingIntelligence_request (notesText s) [] (contextText s)
             (file_args (files s)))) = Inr (JObject [])"
    by (simp add: generateMeetingIntelligence_result_def service_responding_def or_js_def
        JSON_parse_empty_object)
  from startAnalysis_resolved [where svc = "service_responding txt", OF this] True
  show ?thesis
    by (simp add: finalReport_def spread_def)
next
  case False
  with assms have
    "generateMeetingIntelligence_result
       (service_responding txt
          (generateMeetingIntelligence_request (notesText s) [] (contextText s)
             (file_args (files s)))) = Inl SyntaxError"
    by (simp add: generateMeetingIntelligence_result_def service_responding_def or_js_def)
  from startAnalysis_rejected [where svc = "service_responding txt", OF this] False
  show ?thesis
    by simp
qed

lemma invalid_json_is_handled_example:
  "snd (startAnalysis (service_responding ''not json'') ''k3x9q2m1z'' ''Nov 3, 2026''
          initial_state) = None
   \<and> step (fst (startAnalysis (service_responding ''not json'') ''k3x9q2m1z'' ''Nov 3, 2026''
          initial_state)) = INPUT
   \<and> reportsHistory (fst (startAnalysis (service_responding ''not json'') ''k3x9q2m1z''
          ''Nov 3, 2026'' initial_state)) = [MOCK_REPORT]"
  using invalid_json_is_handled [OF JSON_parse_not_json, of "''k3x9q2m1z''" "''Nov 3, 2026''" initial_state]
  by (simp add: initial_state_def)

lemma index_js_Nil: "index_js [] i = None"
  by (simp add: index_js_def)

lemma index_js_Cons_0: "index_js (x # xs) 0 = Some x"
  by (simp add: index_js_def)

lemma title_of_eq:
  "title_of fs =
     (case fs of
        [] \<Rightarrow> ''Untitled Session''
      | f # rest \<Rightarrow>
          (if takeWhile (\<lambda>x. x \<noteq> CHR ''.'') (file_name f) = [] then ''Untitled Session''
           else takeWhile (\<lambda>x. x \<noteq> CHR ''.'') (file_name f)))"
  by (cases fs) (simp_all add: title_of_def index_js_Nil index_js_Cons_0 split_js_first or_js_def)

lemma startAnalysis_empty_text:
  "startAnalysis (service_responding []) rid today s =
     (s\<lparr>step := ANALYZING,
        report := Some (JObject [(''id'', JString rid), (''date'', JString today),
                                 (''title'', JString (title_of (files s)))]),
        reportsHistory :=
          JObject [(''id'', JString rid), (''date'', JString today),
                   (''title'', JString (title_of (files s)))] # reportsHistory s,
        analysisProgress := 100,
        currentAnalysisStep := 3,
        intervals := filter (\<lambda>p. fst p \<noteq> nextTimer s) (intervals s),
        timeouts := timeouts s @ [Suc (nextTimer s)],
        nextTimer := Suc (Suc (nextTimer s)),
        sent := sent s @ [generateMeetingIntelligence_request (notesText s) []
                            (contextText s) (file_args (files s))]\<rparr>,
      None)"
proof -
  have "generateMeetingIntelligence_result
       (service_responding []
          (generateMeetingIntelligence_request (notesText s) [] (contextText s)
             (file_args (files s)))) = Inr (JObject [])"
    by (simp add: generateMeetingIntelligence_result_def service_responding_def or_js_def
        JSON_parse_empty_object)
  from startAnalysis_resolved [where svc = "service_responding []", OF this]
  show ?thesis
    by (simp add: finalReport_def spread_def)
qed

text \<open>
  Claim C6. When the text of the response is not valid JSON, the system does not throw
  uncaught. With the empty text (which is not valid JSON) the code breaks this: the
  handler ends without an exception and stores a report with \<^verbatim>\<open>id\<close>, \<^verbatim>\<open>date\<close> and
  \<^verbatim>\<open>title\<close> alone, its timeout then shows the report view, and the render reads
  \<^verbatim>\<open>report.summary.overview\<close> and throws a \<^verbatim>\<open>TypeError\<close>, which nothing catches.
\<close>

theorem empty_response_text_crashes_report_view:
  "JSON_parse [] = None
   \<and> snd (startAnalysis (service_responding []) ''k3x9q2m1z'' ''Nov 3, 2026'' initial_state)
       = None
   \<and> timeouts (fst (startAnalysis (service_responding []) ''k3x9q2m1z'' ''Nov 3, 2026''
         initial_state)) = [2]
   \<and> step (timeout_fire 2 (fst (startAnalysis (service_responding []) ''k3x9q2m1z''
         ''Nov 3, 2026'' initial_state))) = REPORT
   \<and> report (timeout_fire 2 (fst (startAnalysis (service_responding []) ''k3x9q2m1z''
         ''Nov 3, 2026'' initial_state)))
       = Some (JObject [(''id'', JString ''k3x9q2m1z''), (''date'', JString ''Nov 3, 2026''),
                        (''title'', JString ''Untitled Session'')])
   \<and> render (timeout_fire 2 (fst (startAnalysis (service_responding []) ''k3x9q2m1z''
         ''Nov 3, 2026'' initial_state))) = Some TypeError"
proof -
  have m: "sidebar_item MOCK_REPORT = None"
    by (simp add: sidebar_item_def read_error_def get_prop_def MOCK_REPORT_def)
  have n: "sidebar_item (JObject [(''id'', JString ''k3x9q2m1z''),
             (''date'', JString ''Nov 3, 2026''), (''title'', JString ''Untitled Session'')])
           = None"
    by (simp add: sidebar_item_def read_error_def get_prop_def)
  have r: "report_view (JObject [(''id'', JString ''k3x9q2m1z''),
             (''date'', JString ''Nov 3, 2026''), (''title'', JString ''Untitled Session'')])
           = Some TypeError"
    by (simp add: report_view_def read_error_def get_prop_def)
  show ?thesis
    by (simp add: startAnalysis_empty_text JSON_parse_Nil initial_state_def timeout_fire_def
        title_of_eq render_def m n r)
qed

section \<open>Properties of the title\<close>

text \<open>
  With no file the title is the default, and for a name with one dot and something before
  it the title is the base name.
\<close>

lemma title_of_Nil: "title_of [] = ''Untitled Session''"
  by (simp add: title_of_eq)

lemma takeWhile_until_sep: "c \<notin> set xs \<Longrightarrow> takeWhile (\<lambda>x. x \<noteq> c) (xs @ c # ys) = xs"
  by (induction xs) auto

lemma dropWhile_until_sep: "c \<notin> set xs \<Longrightarrow> dropWhile (\<lambda>x. x \<noteq> c) (xs @ c # ys) = c # ys"
  by (induction xs) auto

lemma title_of_one_extension:
  assumes "CHR ''.'' \<notin> set b" and "CHR ''.'' \<notin> set ext" and "b \<noteq> []"
    and "file_name f = b @ CHR ''.'' # ext"
  shows "title_of (f # fs) = base_name (file_name f)"
proof -
  from assms(2) have "CHR ''.'' \<notin> set (rev ext)"
    by simp
  from dropWhile_until_sep [OF this, of "rev b"]
  have "base_name (b @ CHR ''.'' # ext) = b"
    by (simp add: base_name_def)
  with assms(1,3,4) show ?thesis
    by (simp add: title_of_eq takeWhile_until_sep)
qed

text \<open>
  Claim C7. The stored title is the base name of the first uploaded file (its name with
  the extension removed), and the default title when no file was uploaded. The code cuts
  the name at its first dot, not at its last: for the file \<^verbatim>\<open>Q4.Report.pdf\<close> the stored
  title is \<^verbatim>\<open>Q4\<close>, and the base name is \<^verbatim>\<open>Q4.Report\<close>.
\<close>

theorem title_stops_at_first_dot:
  "report (fst (startAnalysis (service_responding ''{}'') ''k3x9q2m1z'' ''Nov 3, 2026''
                  sample_session))
     = Some (JObject [(''id'', JString ''k3x9q2m1z''), (''date'', JString ''Nov 3, 2026''),
                      (''title'', JString ''Q4'')])
   \<and> file_name (hd (files sample_session)) = ''Q4.Report.pdf''
   \<and> base_name ''Q4.Report.pdf'' = ''Q4.Report''"
proof -
  have "generateMeetingIntelligence_result
       (service_responding ''{}''
          (generateMeetingIntelligence_request (notesText sample_session) []
             (contextText sample_session) (file_args (files sample_session))))
        = Inr (JObject [])"
    by (simp add: generateMeetingIntelligence_result_def service_responding_def or_js_def
        JSON_parse_empty_object)
  from startAnalysis_resolved [where svc = "service_responding ''{}''", OF this]
  show ?thesis
    by (simp add: sample_session_eq finalReport_def spread_def title_of_eq base_name_def)
qed

section \<open>Properties of the progress timer\<close>

lemma interval_fire_inactive:
  "interval \<notin> fst ` set (intervals s) \<Longrightarrow> interval_fire interval rnd s = s"
  using map_of_eq_None_iff [of "intervals s" interval]
  by (simp add: interval_fire_def)

lemma startAnalysis_settle_intervals:
  "intervals (fst (startAnalysis_settle interval fs awaited rid today s))
     = filter (\<lambda>p. fst p \<noteq> interval) (intervals s)"
  by (simp add: startAnalysis_settle_def startAnalysis_try_def startAnalysis_catch_def
      setTimeout_def clearInterval_def Let_def split: sum.splits)

lemma startAnalysis_intervals:
  "intervals (fst (startAnalysis svc rid today s))
     = filter (\<lambda>p. fst p \<noteq> nextTimer s) (intervals s)"
  by (simp add: startAnalysis_def startAnalysis_begin_def setInterval_def
      generateMeetingIntelligence_def Let_def startAnalysis_settle_intervals)

lemma request_settled_intervals:
  "index_js (awaiting s) k = Some (interval, fs) \<Longrightarrow>
     intervals (fst (request_settled k outcome rid today s))
       = filter (\<lambda>p. fst p \<noteq> interval) (intervals s)"
  by (simp add: request_settled_def startAnalysis_settle_intervals)

text \<open>
  Claim C8. The progress interval that \<^verbatim>\<open>startAnalysis\<close> starts is active after the
  statements before the \<^verbatim>\<open>try\<close>; when the handler has ended, by success or by failure,
  it is no longer active and its firing changes nothing. The same holds when other events
  come between the click and the settling of the request: once the request of an awaiting
  session has settled, the interval of that session is not active and cannot fire.
\<close>

theorem progress_interval_cleared:
  "snd (startAnalysis_begin s) \<in> fst ` set (intervals (fst (startAnalysis_begin s)))
   \<and> snd (startAnalysis_begin s) \<notin> fst ` set (intervals (fst (startAnalysis svc rid today s)))
   \<and> interval_fire (snd (startAnalysis_begin s)) rnd (fst (startAnalysis svc rid today s))
       = fst (startAnalysis svc rid today s)
   \<and> (index_js (awaiting s) k = Some (interval, fs) \<longrightarrow>
         interval \<notin> fst ` set (intervals (fst (request_settled k outcome rid today s)))
       \<and> interval_fire interval rnd (fst (request_settled k outcome rid today s))
           = fst (request_settled k outcome rid today s))"
proof -
  have a: "snd (startAnalysis_begin s) = nextTimer s"
    by (simp add: startAnalysis_begin_def setInterval_def)
  have b: "nextTimer s \<in> fst ` set (intervals (fst (startAnalysis_begin s)))"
    by (simp add: startAnalysis_begin_def setInterval_def)
  have c: "nextTimer s \<notin> fst ` set (intervals (fst (startAnalysis svc rid today s)))"
    by (auto simp: startAnalysis_intervals)
  have d: "interval \<notin> fst ` set (intervals (fst (request_settled k outcome rid today s)))"
    if "index_js (awaiting s) k = Some (interval, fs)"
    using that by (auto simp: request_settled_intervals)
  from a b c d show ?thesis
    by (simp add: interval_fire_inactive)
qed

theorem progress_interval_cleared_witness:
  "index_js (awaiting (generate_click initial_state)) 0 = Some (1, [])
   \<and> 1 \<in> fst ` set (intervals (generate_click initial_state))
   \<and> 1 \<notin> fst ` set (intervals (fst (request_settled 0 (Rejected ''503'') ''k3x9q2m1z''
         ''Nov 3, 2026'' (generate_click initial_state))))
   \<and> interval_fire 1 (1 / 2) (fst (request_settled 0 (Rejected ''503'') ''k3x9q2m1z''
         ''Nov 3, 2026'' (generate_click initial_state)))
       = fst (request_settled 0 (Rejected ''503'') ''k3x9q2m1z'' ''Nov 3, 2026''
         (generate_click initial_state))"
proof -
  have a: "index_js (awaiting (generate_click initial_state)) 0 = Some (1, [])"
    by (simp add: generate_click_def startAnalysis_begin_def setInterval_def
        initial_state_def index_js_def)
  have b: "1 \<in> fst ` set (intervals (generate_click initial_state))"
    by (simp add: generate_click_def startAnalysis_begin_def setInterval_def
        initial_state_def)
  from progress_interval_cleared [where s = "generate_click initial_state" and k = 0 and interval = 1
      and fs = "[]" and outcome = "Rejected ''503''" and rid = "''k3x9q2m1z''"
      and today = "''Nov 3, 2026''" and rnd = "1 / 2"] a b
  show ?thesis
    by simp
qed

section \<open>Properties of the history\<close>

lemma startAnalysis_settle_history:
  "reportsHistory (fst (startAnalysis_settle interval fs awaited rid today s)) =
     (case awaited of
        Inl e \<Rightarrow> reportsHistory s
      | Inr result \<Rightarrow> finalReport result rid today fs # reportsHistory s)"
  by (simp add: startAnalysis_settle_def startAnalysis_try_def startAnalysis_catch_def
      setTimeout_def clearInterval_def Let_def split: sum.splits)

lemma interval_fire_history: "reportsHistory (interval_fire interval rnd s) = reportsHistory s"
  by (simp add: interval_fire_def interval_callback_def clearInterval_def Let_def
      split: option.splits)

lemma handle_history:
  "reportsHistory (handle e s) =
     (case new_report e s of None \<Rightarrow> reportsHistory s | Some r \<Rightarrow> r # reportsHistory s)"
proof (cases e)
  case (RequestSettled k outcome rid today)
  then show ?thesis
    by (simp add: new_report_def request_settled_def startAnalysis_settle_history
        split: option.splits sum.splits)
next
  case (IntervalFire interval rnd)
  then show ?thesis
    by (simp add: new_report_def interval_fire_history)
next
  case GenerateClick
  then show ?thesis
    by (simp add: new_report_def generate_click_def startAnalysis_begin_def setInterval_def
        Let_def)
qed (simp_all add: new_report_def newSession_def navGenerate_def navReports_def
      recentItemClick_def viewReportClick_def setContext_def handleFileUpload_def
      reader_onload_def timeout_fire_def split: option.splits)

lemma run_history: "reportsHistory (run s es) = rev (completed s es) @ reportsHistory s"
proof (induction es arbitrary: s)
  case Nil
  show ?case by simp
next
  case (Cons e es)
  show ?case
    by (simp add: Cons.IH handle_history split: option.splits)
qed

text \<open>
  Claim C5. After any run of the application from its initial state, the history is the
  reports of the successful sessions, the most recent first, followed by the preloaded
  entry, so its length is their number plus one. Every event either leaves the history as
  it is or puts the one report of a successful session in front of it.
\<close>

theorem history_newest_first:
  "reportsHistory (run initial_state es) = rev (completed initial_state es) @ [MOCK_REPORT]
   \<and> length (reportsHistory (run initial_state es)) = length (completed initial_state es) + 1
   \<and> (reportsHistory (handle e s) = reportsHistory s
       \<or> (\<exists>r. new_report e s = Some r \<and> reportsHistory (handle e s) = r # reportsHistory s))"
proof -
  have "reportsHistory initial_state = [MOCK_REPORT]"
    by (simp add: initial_state_def)
  then have a: "reportsHistory (run initial_state es)
                  = rev (completed initial_state es) @ [MOCK_REPORT]"
    by (simp add: run_history)
  have b: "reportsHistory (handle e s) = reportsHistory s
       \<or> (\<exists>r. new_report e s = Some r \<and> reportsHistory (handle e s) = r # reportsHistory s)"
    by (cases "new_report e s") (simp_all add: handle_history)
  from a b show ?thesis
    by simp
qed

lemma completed_two_sessions:
  "completed initial_state two_sessions =
     [JObject [(''id'', JString ''k3x9q2m1z''), (''date'', JString ''Nov 3, 2026''),
               (''title'', JString ''Untitled Session'')],
      JObject [(''id'', JString ''a1b2c3d4e''), (''date'', JString ''Nov 5, 2026''),
               (''title'', JString ''Untitled Session'')]]"
  by (simp add: two_sessions_def initial_state_def new_report_def generate_click_def
      startAnalysis_begin_def setInterval_def request_settled_def index_js_def
      generateMeetingIntelligence_result_def or_js_def JSON_parse_empty_object
      startAnalysis_settle_def startAnalysis_try_def startAnalysis_catch_def setTimeout_def
      clearInterval_def remove_nth_def finalReport_def spread_def title_of_def newSession_def
      Let_def)

theorem history_newest_first_witness:
  "reportsHistory (run initial_state two_sessions) =
     [JObject [(''id'', JString ''a1b2c3d4e''), (''date'', JString ''Nov 5, 2026''),
               (''title'', JString ''Untitled Session'')],
      JObject [(''id'', JString ''k3x9q2m1z''), (''date'', JString ''Nov 3, 2026''),
               (''title'', JString ''Untitled Session'')],
      MOCK_REPORT]
   \<and> length (reportsHistory (run initial_state two_sessions)) = 3"
  using history_newest_first [of two_sessions]
  by (simp add: completed_two_sessions)

section \<open>Properties of the requests sent\<close>

lemma interval_fire_sent: "sent (interval_fire interval rnd s) = sent s"
  by (simp add: interval_fire_def interval_callback_def clearInterval_def Let_def
      split: option.splits)

lemma startAnalysis_settle_sent:
  "sent (fst (startAnalysis_settle interval fs awaited rid today s)) = sent s"
  by (simp add: startAnalysis_settle_def startAnalysis_try_def startAnalysis_catch_def
      setTimeout_def clearInterval_def Let_def split: sum.splits)

lemma handle_sent:
  "sent (handle e s) =
     (case e of
        GenerateClick \<Rightarrow>
          sent s @ [generateMeetingIntelligence_request (notesText s) [] (contextText s)
                      (file_args (files s))]
      | _ \<Rightarrow> sent s)"
proof (cases e)
  case (RequestSettled k outcome rid today)
  then show ?thesis
    by (simp add: request_settled_def startAnalysis_settle_sent split: option.splits)
next
  case (IntervalFire interval rnd)
  then show ?thesis
    by (simp add: interval_fire_sent)
next
  case GenerateClick
  then show ?thesis
    by (simp add: generate_click_def startAnalysis_begin_def setInterval_def Let_def)
qed (simp_all add: newSession_def navGenerate_def navReports_def
      recentItemClick_def viewReportClick_def setContext_def handleFileUpload_def
      reader_onload_def timeout_fire_def split: option.splits)

lemma run_sent:
  "r \<in> set (sent (run s es)) \<Longrightarrow>
     r \<in> set (sent s) \<or> (\<exists>n c fs. r = generateMeetingIntelligence_request n [] c fs)"
proof (induction es arbitrary: s)
  case Nil
  then show ?case by simp
next
  case (Cons e es)
  from Cons.prems have "r \<in> set (sent (run (handle e s) es))"
    by simp
  from Cons.IH [OF this] show ?case
    by (auto simp: handle_sent split: event.splits)
qed

lemma startAnalysis_sent:
  "sent (fst (startAnalysis svc rid today s)) =
     sent s @ [generateMeetingIntelligence_request (notesText s) [] (contextText s)
                 (file_args (files s))]"
  by (simp add: startAnalysis_def startAnalysis_begin_def setInterval_def
      generateMeetingIntelligence_def Let_def startAnalysis_settle_sent)

text \<open>
  Claim C9. Every request that the application has sent after any run from its initial
  state was built by \<^verbatim>\<open>generateMeetingIntelligence\<close> with the empty string as its
  \<^verbatim>\<open>slides\<close> argument; a session sends exactly one request, built from the notes, the
  empty string, the context and the collected files; and such a request carries the files
  as the attachments after its text part.
\<close>

theorem slides_argument_empty:
  "(r \<in> set (sent (run initial_state es)) \<longrightarrow>
      (\<exists>n c fs. r = generateMeetingIntelligence_request n [] c fs))
   \<and> sent (fst (startAnalysis svc rid today s)) =
       sent s @ [generateMeetingIntelligence_request (notesText s) [] (contextText s)
                   (file_args (files s))]
   \<and> contents (generateMeetingIntelligence_request n [] c fs) =
       [TextPart (instruction n [] c) # map attachment fs]"
proof -
  have "sent initial_state = []"
    by (simp add: initial_state_def)
  with run_sent [of r initial_state es]
  have "r \<in> set (sent (run initial_state es)) \<longrightarrow>
      (\<exists>n c fs. r = generateMeetingIntelligence_request n [] c fs)"
    by auto
  then show ?thesis
    by (simp add: startAnalysis_sent generateMeetingIntelligence_request_def build_parts_shape)
qed

theorem slides_argument_empty_witness:
  "generateMeetingIntelligence_request [] [] ''Q4 budget''
      [\<lparr>data = ''data:application/pdf;base64,JVBERi0='', mimeType = ''application/pdf''\<rparr>]
     \<in> set (sent (run sample_session [GenerateClick]))
   \<and> (\<exists>n c fs.
        generateMeetingIntelligence_request [] [] ''Q4 budget''
          [\<lparr>data = ''data:application/pdf;base64,JVBERi0='', mimeType = ''application/pdf''\<rparr>]
        = generateMeetingIntelligence_request n [] c fs)"
proof -
  have eq: "run sample_session [GenerateClick] =
     run initial_state
       [ContextInput ''Q4 budget'',
        FileInput [\<lparr>upload_name = ''Q4.Report.pdf'', upload_type = ''application/pdf''\<rparr>]
          ''notes'',
        ReaderLoad 0 ''data:application/pdf;base64,JVBERi0='',
        GenerateClick]"
    by (simp add: sample_session_def)
  have m: "generateMeetingIntelligence_request [] [] ''Q4 budget''
      [\<lparr>data = ''data:application/pdf;base64,JVBERi0='', mimeType = ''application/pdf''\<rparr>]
     \<in> set (sent (run sample_session [GenerateClick]))"
    by (simp add: handle_sent sample_session_eq initial_state_def file_args_def
        del: handle.simps)
  from slides_argument_empty [of "generateMeetingIntelligence_request [] [] ''Q4 budget''
      [\<lparr>data = ''data:application/pdf;base64,JVBERi0='', mimeType = ''application/pdf''\<rparr>]"
      "[ContextInput ''Q4 budget'',
        FileInput [\<lparr>upload_name = ''Q4.Report.pdf'', upload_type = ''application/pdf''\<rparr>]
          ''notes'',
        ReaderLoad 0 ''data:application/pdf;base64,JVBERi0='',
        GenerateClick]"] m eq
  show ?thesis
    by simp
qed

end
